theory Spec2Isabelle
  imports Main "HOL-Library.Word" "HOL-Library.Signed_Division"
begin

section \<open>Machine integers\<close>

text \<open>
  The simulator computes on fixed-width integers.  \<open>uint64_t\<close>, \<open>uint32_t\<close> and
  \<open>uint8_t\<close> are words whose arithmetic wraps.  \<open>int64_t\<close> is a 64-bit word read in
  two's complement: comparisons of prices are the signed ones (\<open><s\<close>, \<open>\<le>s\<close>), and
  signed arithmetic is modelled by the wrapping word operations.
\<close>

type_synonym u64 = "64 word"
type_synonym i64 = "64 word"
type_synonym u32 = "32 word"
type_synonym u8 = "8 word"

definition INT64_MAX :: i64 where
  "INT64_MAX = 0x7FFFFFFFFFFFFFFF"

text \<open>\<open>MAX_REASONABLE_PRICE = 10000LL * 1000000000LL\<close> (unnamed/part_000, line 65).\<close>

definition MAX_REASONABLE_PRICE :: i64 where
  "MAX_REASONABLE_PRICE = 10000 * 1000000000"

text \<open>\<open>MIN_PROCESSING_INTERVAL = 100000\<close> (unnamed/part_000, line 59).\<close>

definition MIN_PROCESSING_INTERVAL :: u64 where
  "MIN_PROCESSING_INTERVAL = 100000"

text \<open>C++ division of \<open>int64_t\<close> truncates towards zero.\<close>

definition i64_div :: "i64 \<Rightarrow> i64 \<Rightarrow> i64" where
  "i64_div a b = word_of_int (sint a sdiv sint b)"

section \<open>Market data types (types/market\_data\_types.h)\<close>

record book_top_level_t =
  bid_nanos :: i64
  ask_nanos :: i64
  bid_qty :: u32
  ask_qty :: u32

record book_top_t =
  ts :: u64
  seqno :: u64
  top_level :: book_top_level_t
  second_level :: book_top_level_t
  third_level :: book_top_level_t

text \<open>
  \<open>book_fill_snapshot_t\<close>.  The field \<open>resting_side_number_of_orders\<close> is never
  assigned by the simulator and is left out.
\<close>

record book_fill_snapshot_t =
  fill_ts :: u64
  fill_seq_no :: u64
  resting_order_id :: u64
  was_hidden :: bool
  trade_price :: i64
  trade_qty :: u32
  execution_id :: u64
  resting_original_qty :: u32
  resting_order_remaining_qty :: u32
  resting_order_last_update_ts :: u64
  resting_side_is_bid :: bool
  resting_side_price :: i64
  resting_side_qty :: u32
  opposing_side_price :: i64
  opposing_side_qty :: u32

section \<open>The strategy interface\<close>

text \<open>
  Modelled from the spec: the header strategies/strategy.h, which declares
  \<open>OrderAction\<close> and the abstract class \<open>Strategy\<close>, is not among the sources.  The
  specification (section 4.4) gives \<open>OrderAction\<close> the tag \<open>ADD\<close>, \<open>CANCEL\<close> or
  \<open>REPLACE\<close> and the fields below; the simulator and the basic strategy use exactly
  these.  A strategy is driven by three callbacks, each returning a list of actions;
  since a strategy object carries private state, each callback takes the strategy's
  state and returns the new one.
\<close>

datatype ActionType = ADD | CANCEL | REPLACE

record OrderAction =
  act_type :: ActionType
  act_orderId :: u64
  act_symbolId :: u32
  act_sent_ts :: u64
  act_md_ts :: u64
  act_price :: i64
  act_quantity :: u32
  act_isBid :: bool
  act_isPostOnly :: bool

record 'st Strategy =
  onBookTopUpdate :: "'st \<Rightarrow> book_top_t \<Rightarrow> OrderAction list \<times> 'st"
  onFill :: "'st \<Rightarrow> book_fill_snapshot_t \<Rightarrow> OrderAction list \<times> 'st"
  onOrderFilled :: "'st \<Rightarrow> u64 \<Rightarrow> i64 \<Rightarrow> u32 \<Rightarrow> bool \<Rightarrow> OrderAction list \<times> 'st"

section \<open>The simulator state (class FillSimulator, unnamed/part\_002)\<close>

record OrderInfo =
  orderId :: u64
  symbolId :: u32
  sent_ts :: u64
  md_ts :: u64
  price :: i64
  quantity :: u32
  filledQuantity :: u32
  isBid :: bool
  isPostOnly :: bool

text \<open>
  \<open>OrderRecord\<close>.  Its constructor initialises every field except \<open>old_price\<close> and
  \<open>old_quantity\<close>, which only a replace record assigns: \<open>None\<close> stands for the
  indeterminate value of the other records.
\<close>

record OrderRecord =
  timestamp :: u64
  event_type :: u8
  order_id :: u64
  symbol_id :: u32
  rec_price :: i64
  old_price :: "i64 option"
  rec_quantity :: u32
  old_quantity :: "u32 option"
  is_bid :: bool

definition OrderRecord_init :: OrderRecord where
  "OrderRecord_init =
     \<lparr>timestamp = 0, event_type = 0, order_id = 0, symbol_id = 0, rec_price = 0,
      old_price = None, rec_quantity = 0, old_quantity = None, is_bid = False\<rparr>"

text \<open>
  The members of \<open>FillSimulator\<close>.  \<open>activeOrders\<close> is the
  \<open>std::unordered_map\<close> of resting simulated orders, \<open>outputFile\<close> is the
  sequence of records written so far (the constructor throws unless the file is
  open, so every write appends), \<open>lastProcessedTime\<close> is the function-local static
  of \<open>processBookTop\<close>, and \<open>strategy\<close> is the state of the strategy object.  The
  two \<open>double\<close> totals (\<open>totalBuyCost\<close>, \<open>totalSellProceeds\<close>) only feed the
  printed report and are not modelled.
\<close>

record 'st FillSimulator =
  lastBookTop :: book_top_t
  bidLevels :: "i64 \<rightharpoonup> u32"
  askLevels :: "i64 \<rightharpoonup> u32"
  lastValidMidPrice :: i64
  strategy :: 'st
  activeOrders :: "u64 \<rightharpoonup> OrderInfo"
  position :: i64
  cashFlow :: i64
  outputFile :: "OrderRecord list"
  totalOrdersPlaced :: u64
  totalOrdersFilled :: u64
  totalBuyVolume :: u64
  totalSellVolume :: u64
  strategyMdLatencyNs :: u64
  exchangeLatencyNs :: u64
  totalMdEvents :: u64
  totalMdToStrategyLatencyNs :: u64
  totalStrategyToExchangeLatencyNs :: u64
  totalExchangeToNotificationLatencyNs :: u64
  lastProcessedTime :: u64

text \<open>
  Two variants of fill\_simulator.cpp are among the sources.  They differ in the
  price bound of the book-top filter and in the cash-flow arithmetic of
  \<open>processFill\<close>; the functions below take the variant as a parameter.
\<close>

datatype source_variant =
  Part000 \<comment> \<open>src/unnamed/part\_000, the variant with queue simulation\<close>
| FillSimulatorCpp \<comment> \<open>src/fill\_simulator.cpp\<close>

text \<open>
  Failures of the model.  \<open>OutOfFuel\<close>: the nesting of fills and strategy reactions
  exceeded the given bound.  \<open>InvalidatedIterator\<close>: the code dereferences or compares
  an iterator (or a reference to a map entry) after the entry was erased, which is
  undefined behaviour in C++.
\<close>

datatype sim_error = OutOfFuel | InvalidatedIterator

definition book_top_level_zero :: book_top_level_t where
  "book_top_level_zero = \<lparr>bid_nanos = 0, ask_nanos = 0, bid_qty = 0, ask_qty = 0\<rparr>"

text \<open>The constructor (unnamed/part\_000, lines 7-34).\<close>

definition FillSimulator_init :: "u64 \<Rightarrow> u64 \<Rightarrow> 'st \<Rightarrow> 'st FillSimulator" where
  "FillSimulator_init mdLatency exchLatency st =
     \<lparr>lastBookTop = \<lparr>ts = 0, seqno = 0, top_level = book_top_level_zero,
                      second_level = book_top_level_zero, third_level = book_top_level_zero\<rparr>,
      bidLevels = Map.empty, askLevels = Map.empty, lastValidMidPrice = 0,
      strategy = st, activeOrders = Map.empty, position = 0, cashFlow = 0,
      outputFile = [], totalOrdersPlaced = 0, totalOrdersFilled = 0,
      totalBuyVolume = 0, totalSellVolume = 0,
      strategyMdLatencyNs = mdLatency, exchangeLatencyNs = exchLatency,
      totalMdEvents = 0, totalMdToStrategyLatencyNs = 0,
      totalStrategyToExchangeLatencyNs = 0, totalExchangeToNotificationLatencyNs = 0,
      lastProcessedTime = 0\<rparr>"

section \<open>Latency helpers and the record writer\<close>

definition applyMdLatency :: "'st FillSimulator \<Rightarrow> u64 \<Rightarrow> u64" where
  "applyMdLatency s t = t + strategyMdLatencyNs s"

definition applyExchangeLatency :: "'st FillSimulator \<Rightarrow> u64 \<Rightarrow> u64" where
  "applyExchangeLatency s t = t + exchangeLatencyNs s"

definition writeOrderRecord :: "OrderRecord \<Rightarrow> 'st FillSimulator \<Rightarrow> 'st FillSimulator" where
  "writeOrderRecord r s = s\<lparr>outputFile := outputFile s @ [r]\<rparr>"

section \<open>wouldOrderBeFilled\<close>

text \<open>
  unnamed/part\_000, lines 180-204 (the same text in src/fill\_simulator.cpp, lines
  176-200).  The function reads the stored top of book and returns a flag; it
  assigns to no member, so the model is a function of the state that returns only
  the flag.
\<close>

definition wouldOrderBeFilled ::
  "'st FillSimulator \<Rightarrow> u64 \<Rightarrow> bool \<Rightarrow> i64 \<Rightarrow> u32 \<Rightarrow> bool" where
  "wouldOrderBeFilled s oid isBid' price' quantity' =
     (if price' \<le>s 0 \<or> quantity' = 0 then False
      else if isBid' then
        (let bestAsk = ask_nanos (top_level (lastBookTop s)) in
         if bestAsk \<le>s 0 \<or> bestAsk = INT64_MAX then False
         else if bestAsk \<le>s price' then True else False)
      else
        (let bestBid = bid_nanos (top_level (lastBookTop s)) in
         if bestBid \<le>s 0 \<or> bestBid = INT64_MAX then False
         else if price' \<le>s bestBid then True else False))"

section \<open>processFill, processAction and the action loop\<close>

text \<open>
  The three loops over the actions a strategy returns (in \<open>processBookTop\<close>,
  \<open>processBookFill\<close> and \<open>processFill\<close>) have the same body: the action is copied,
  \<open>sent_ts\<close> is set to the time \<open>t\<close> of the event the strategy saw if it was zero,
  \<open>md_ts\<close> is set to \<open>exchangeReceiveTime = applyExchangeLatency(t)\<close>, the
  strategy-to-exchange accumulator grows, and \<open>processAction\<close> runs.
  \<open>delayAction\<close> is the stamping (unnamed/part\_000, lines 105-111, 165-171 and
  281-287).
\<close>

definition delayAction :: "'st FillSimulator \<Rightarrow> u64 \<Rightarrow> OrderAction \<Rightarrow> OrderAction" where
  "delayAction s t action =
     (let exchangeReceiveTime = applyExchangeLatency s t;
          delayedAction = (if act_sent_ts action = 0 then action\<lparr>act_sent_ts := t\<rparr> else action)
      in delayedAction\<lparr>act_md_ts := exchangeReceiveTime\<rparr>)"

text \<open>
  The amount by which a fill moves the cash flow.  unnamed/part\_000 (lines 253 and
  261) takes \<open>fillPrice * static_cast<int64_t>(fillQty)\<close>; src/fill\_simulator.cpp
  (lines 249-250 and 257-258) divides the product by 1000 and multiplies the quotient
  by 1000 again.
\<close>

definition fillNotional :: "source_variant \<Rightarrow> i64 \<Rightarrow> u32 \<Rightarrow> i64" where
  "fillNotional v fillPrice fillQty =
     (case v of
        Part000 \<Rightarrow> fillPrice * ucast fillQty
      | FillSimulatorCpp \<Rightarrow> i64_div (fillPrice * ucast fillQty) 1000 * 1000)"

text \<open>
  The part of \<open>processFill\<close> between the validation and the strategy callback
  (unnamed/part\_000, lines 226-271), for an order \<open>ord\<close> found under \<open>oid\<close>: the
  notification accumulator, the filled quantity, the fill record, position, cash
  flow and volumes, the fill counter, and the erasure of a fully filled order.
\<close>

definition processFill_update ::
  "source_variant \<Rightarrow> u64 \<Rightarrow> OrderInfo \<Rightarrow> i64 \<Rightarrow> u32 \<Rightarrow> bool \<Rightarrow> u64 \<Rightarrow>
   'st FillSimulator \<Rightarrow> 'st FillSimulator" where
  "processFill_update v oid ord fillPrice fillQty isBid' fillNotificationTime s =
     (let s1 = (if fillNotificationTime > 0
                then s\<lparr>totalExchangeToNotificationLatencyNs :=
                         totalExchangeToNotificationLatencyNs s + exchangeLatencyNs s\<rparr>
                else s);
          totalQuantity = quantity ord;
          ord' = ord\<lparr>filledQuantity := filledQuantity ord + fillQty\<rparr>;
          isFullyFilled = (filledQuantity ord' \<ge> totalQuantity);
          s2 = writeOrderRecord
                 (OrderRecord_init\<lparr>timestamp := fillNotificationTime, event_type := 3,
                    order_id := oid, symbol_id := symbolId ord, rec_price := fillPrice,
                    rec_quantity := fillQty, is_bid := isBid'\<rparr>)
                 (s1\<lparr>activeOrders := (activeOrders s1)(oid \<mapsto> ord')\<rparr>);
          s3 = (if isBid'
                then s2\<lparr>position := position s2 + ucast fillQty,
                        cashFlow := cashFlow s2 - fillNotional v fillPrice fillQty,
                        totalBuyVolume := totalBuyVolume s2 + ucast fillQty\<rparr>
                else s2\<lparr>position := position s2 - ucast fillQty,
                        cashFlow := cashFlow s2 + fillNotional v fillPrice fillQty,
                        totalSellVolume := totalSellVolume s2 + ucast fillQty\<rparr>);
          s4 = s3\<lparr>totalOrdersFilled := totalOrdersFilled s3 + 1\<rparr>
      in if isFullyFilled then s4\<lparr>activeOrders := (activeOrders s4)(oid := None)\<rparr> else s4)"

text \<open>The \<open>ADD\<close> case up to the add record (unnamed/part\_000, lines 305-329).\<close>

definition OrderInfo_of_action :: "OrderAction \<Rightarrow> OrderInfo" where
  "OrderInfo_of_action action =
     \<lparr>orderId = act_orderId action, symbolId = act_symbolId action,
      sent_ts = act_sent_ts action, md_ts = act_md_ts action, price = act_price action,
      quantity = act_quantity action, filledQuantity = 0, isBid = act_isBid action,
      isPostOnly = act_isPostOnly action\<rparr>"

definition action_record :: "u8 \<Rightarrow> OrderAction \<Rightarrow> OrderRecord" where
  "action_record ev action =
     OrderRecord_init\<lparr>timestamp := act_md_ts action, event_type := ev,
       order_id := act_orderId action, symbol_id := act_symbolId action,
       rec_price := act_price action, rec_quantity := act_quantity action,
       is_bid := act_isBid action\<rparr>"

definition processAction_add :: "OrderAction \<Rightarrow> 'st FillSimulator \<Rightarrow> 'st FillSimulator" where
  "processAction_add action s =
     writeOrderRecord (action_record 1 action)
       (s\<lparr>activeOrders := (activeOrders s)(act_orderId action \<mapsto> OrderInfo_of_action action),
          totalOrdersPlaced := totalOrdersPlaced s + 1\<rparr>)"

text \<open>The post-only branch of \<open>ADD\<close> (unnamed/part\_000, lines 333-349).\<close>

definition processAction_add_postOnly ::
  "OrderAction \<Rightarrow> 'st FillSimulator \<Rightarrow> 'st FillSimulator" where
  "processAction_add_postOnly action s =
     writeOrderRecord (action_record 2 action)
       (s\<lparr>activeOrders := (activeOrders s)(act_orderId action := None)\<rparr>)"

text \<open>The \<open>CANCEL\<close> case for an order that was found (unnamed/part\_000, lines 369-388).\<close>

definition processAction_cancel ::
  "OrderAction \<Rightarrow> OrderInfo \<Rightarrow> 'st FillSimulator \<Rightarrow> 'st FillSimulator" where
  "processAction_cancel action ord s =
     writeOrderRecord
       (OrderRecord_init\<lparr>timestamp := act_md_ts action, event_type := 2,
          order_id := act_orderId action, symbol_id := symbolId ord,
          rec_price := price ord, rec_quantity := quantity ord, is_bid := isBid ord\<rparr>)
       (s\<lparr>activeOrders := (activeOrders s)(act_orderId action := None)\<rparr>)"

text \<open>
  The \<open>REPLACE\<close> case for an order that was found, up to the replace record
  (unnamed/part\_000, lines 399-426).  \<open>filledQuantity\<close> is not assigned.
\<close>

definition processAction_replace ::
  "OrderAction \<Rightarrow> OrderInfo \<Rightarrow> 'st FillSimulator \<Rightarrow> 'st FillSimulator" where
  "processAction_replace action ord s =
     (let ord1 = ord\<lparr>price := act_price action, quantity := act_quantity action\<rparr>;
          ord2 = (if act_sent_ts action > 0 then ord1\<lparr>sent_ts := act_sent_ts action\<rparr> else ord1);
          ord3 = (if act_md_ts action > 0 then ord2\<lparr>md_ts := act_md_ts action\<rparr> else ord2)
      in writeOrderRecord
           (OrderRecord_init\<lparr>timestamp := act_md_ts action, event_type := 4,
              order_id := act_orderId action, symbol_id := symbolId ord,
              rec_price := act_price action, old_price := Some (price ord),
              rec_quantity := act_quantity action, old_quantity := Some (quantity ord),
              is_bid := isBid ord\<rparr>)
           (s\<lparr>activeOrders := (activeOrders s)(act_orderId action \<mapsto> ord3)\<rparr>))"

text \<open>The price an order fills at: the opposing side of the given book top.\<close>

definition opposingPrice :: "bool \<Rightarrow> book_top_t \<Rightarrow> i64" where
  "opposingPrice isBid' bookTop =
     (if isBid' then ask_nanos (top_level bookTop) else bid_nanos (top_level bookTop))"

text \<open>
  \<open>processFill\<close> (unnamed/part\_000, lines 207-293) calls the strategy, whose
  actions go to \<open>processAction\<close> (lines 296-465), which may call \<open>processFill\<close>
  again.  Nothing in the code bounds this nesting, so \<open>processFill\<close> takes a bound
  \<open>n\<close> on it and fails with \<open>OutOfFuel\<close> when it is exceeded.  The bodies are
  written once, over the function \<open>pf\<close> that stands for the nested call of
  \<open>processFill\<close>.

  In the post-only branch of \<open>REPLACE\<close> (lines 435-446) the order is erased with
  \<open>activeOrders_.erase(action.orderId)\<close> and the cancel record is then filled from
  \<open>it->second\<close>, an iterator to the erased element: the model fails there with
  \<open>InvalidatedIterator\<close>.
\<close>

type_synonym 'st fill_fun =
  "u64 \<Rightarrow> i64 \<Rightarrow> u32 \<Rightarrow> bool \<Rightarrow> u64 \<Rightarrow> 'st FillSimulator \<Rightarrow> sim_error + 'st FillSimulator"

text \<open>The head of \<open>processAction\<close> (unnamed/part\_000, lines 297-301).\<close>

definition processAction_head :: "OrderAction \<Rightarrow> 'st FillSimulator \<Rightarrow> 'st FillSimulator" where
  "processAction_head action s =
     (if (act_type action = ADD \<or> act_type action = REPLACE) \<and>
         wouldOrderBeFilled s (act_orderId action) (act_isBid action)
           (act_price action) (act_quantity action)
      then s\<lparr>totalExchangeToNotificationLatencyNs :=
               totalExchangeToNotificationLatencyNs s + exchangeLatencyNs s\<rparr>
      else s)"

definition processAction_body ::
  "'st fill_fun \<Rightarrow> OrderAction \<Rightarrow> book_top_t \<Rightarrow> 'st FillSimulator \<Rightarrow>
   sim_error + 'st FillSimulator" where
  "processAction_body pf action bookTop s =
     (let s0 = processAction_head action s
      in case act_type action of
           ADD \<Rightarrow>
             (let s1 = processAction_add action s0 in
              if wouldOrderBeFilled s1 (act_orderId action) (act_isBid action)
                   (act_price action) (act_quantity action)
              then if act_isPostOnly action
                   then Inr (processAction_add_postOnly action s1)
                   else pf (act_orderId action)
                          (opposingPrice (act_isBid action) bookTop) (act_quantity action)
                          (act_isBid action) (applyExchangeLatency s1 (act_md_ts action)) s1
              else Inr s1)
         | CANCEL \<Rightarrow>
             (case activeOrders s0 (act_orderId action) of
                Some ord \<Rightarrow> Inr (processAction_cancel action ord s0)
              | None \<Rightarrow> Inr s0)
         | REPLACE \<Rightarrow>
             (case activeOrders s0 (act_orderId action) of
                Some ord \<Rightarrow>
                  (let s1 = processAction_replace action ord s0 in
                   if wouldOrderBeFilled s1 (act_orderId action) (isBid ord)
                        (act_price action) (act_quantity action)
                   then if isPostOnly ord
                        then Inl InvalidatedIterator
                        else pf (act_orderId action)
                               (opposingPrice (isBid ord) bookTop) (act_quantity action)
                               (isBid ord) (applyExchangeLatency s1 (act_md_ts action)) s1
                   else Inr s1)
              | None \<Rightarrow> Inr s0))"

primrec processActions_body ::
  "'st fill_fun \<Rightarrow> u64 \<Rightarrow> book_top_t \<Rightarrow> OrderAction list \<Rightarrow> 'st FillSimulator \<Rightarrow>
   sim_error + 'st FillSimulator" where
  "processActions_body pf t bookTop [] s = Inr s"
| "processActions_body pf t bookTop (action # actions) s =
     (case processAction_body pf (delayAction s t action) bookTop
             (s\<lparr>totalStrategyToExchangeLatencyNs :=
                  totalStrategyToExchangeLatencyNs s + exchangeLatencyNs s\<rparr>) of
        Inl e \<Rightarrow> Inl e
      | Inr s' \<Rightarrow> processActions_body pf t bookTop actions s')"

definition processFill_body ::
  "'st fill_fun \<Rightarrow> source_variant \<Rightarrow> 'st Strategy \<Rightarrow> 'st fill_fun" where
  "processFill_body pf v S oid fillPrice fillQty isBid' fillNotificationTime s =
     (case activeOrders s oid of
        None \<Rightarrow> Inr s
      | Some ord \<Rightarrow>
          if fillPrice \<le>s 0 \<or> fillPrice = INT64_MAX \<or> fillQty = 0 then Inr s
          else
            (let t = (if fillNotificationTime = 0
                      then applyExchangeLatency s (ts (lastBookTop s))
                      else fillNotificationTime);
                 s1 = processFill_update v oid ord fillPrice fillQty isBid' t s;
                 notificationBookTop = (lastBookTop s1)\<lparr>ts := t\<rparr>;
                 r = onOrderFilled S (strategy s1) oid fillPrice fillQty isBid'
             in processActions_body pf t notificationBookTop (fst r)
                  (s1\<lparr>strategy := snd r\<rparr>)))"

primrec processFill :: "nat \<Rightarrow> source_variant \<Rightarrow> 'st Strategy \<Rightarrow> 'st fill_fun" where
  "processFill 0 v S = (\<lambda>oid fillPrice fillQty isBid' fillNotificationTime s. Inl OutOfFuel)"
| "processFill (Suc n) v S = processFill_body (processFill n v S) v S"

definition processAction ::
  "nat \<Rightarrow> source_variant \<Rightarrow> 'st Strategy \<Rightarrow> OrderAction \<Rightarrow> book_top_t \<Rightarrow>
   'st FillSimulator \<Rightarrow> sim_error + 'st FillSimulator" where
  "processAction n v S = processAction_body (processFill n v S)"

definition processActions ::
  "nat \<Rightarrow> source_variant \<Rightarrow> 'st Strategy \<Rightarrow> u64 \<Rightarrow> book_top_t \<Rightarrow> OrderAction list \<Rightarrow>
   'st FillSimulator \<Rightarrow> sim_error + 'st FillSimulator" where
  "processActions n v S = processActions_body (processFill n v S)"

section \<open>processBookTop and processBookFill\<close>

text \<open>
  The validation of \<open>processBookTop\<close>: unnamed/part\_000, lines 68-72, bounds both
  prices by \<open>MAX_REASONABLE_PRICE\<close>; src/fill\_simulator.cpp, lines 64-68, compares
  them with \<open>INT64_MAX\<close> instead.
\<close>

definition bookTop_rejected :: "source_variant \<Rightarrow> book_top_t \<Rightarrow> bool" where
  "bookTop_rejected v bookTop =
     (bid_nanos (top_level bookTop) \<le>s 0 \<or>
      ask_nanos (top_level bookTop) \<le>s 0 \<or>
      ask_nanos (top_level bookTop) \<le>s bid_nanos (top_level bookTop) \<or>
      (case v of
         Part000 \<Rightarrow> MAX_REASONABLE_PRICE <s bid_nanos (top_level bookTop) \<or>
                    MAX_REASONABLE_PRICE <s ask_nanos (top_level bookTop)
       | FillSimulatorCpp \<Rightarrow> bid_nanos (top_level bookTop) = INT64_MAX \<or>
                             ask_nanos (top_level bookTop) = INT64_MAX))"

text \<open>The coalescer at the head of \<open>processBookTop\<close> (unnamed/part\_000, lines 58-63).\<close>

definition bookTop_tooSoon :: "'st FillSimulator \<Rightarrow> book_top_t \<Rightarrow> bool" where
  "bookTop_tooSoon s bookTop =
     (lastProcessedTime s > 0 \<and> ts bookTop - lastProcessedTime s < MIN_PROCESSING_INTERVAL)"

text \<open>The market-state update of an accepted top (unnamed/part\_000, lines 77-91).\<close>

definition updateMarketState :: "book_top_t \<Rightarrow> 'st FillSimulator \<Rightarrow> 'st FillSimulator" where
  "updateMarketState bookTop s =
     s\<lparr>lastProcessedTime := ts bookTop,
       lastBookTop := bookTop,
       lastValidMidPrice :=
         i64_div (bid_nanos (top_level bookTop) + ask_nanos (top_level bookTop)) 2,
       bidLevels := (bidLevels s)
         (bid_nanos (top_level bookTop) \<mapsto> bid_qty (top_level bookTop),
          bid_nanos (second_level bookTop) \<mapsto> bid_qty (second_level bookTop),
          bid_nanos (third_level bookTop) \<mapsto> bid_qty (third_level bookTop)),
       askLevels := (askLevels s)
         (ask_nanos (top_level bookTop) \<mapsto> ask_qty (top_level bookTop),
          ask_nanos (second_level bookTop) \<mapsto> ask_qty (second_level bookTop),
          ask_nanos (third_level bookTop) \<mapsto> ask_qty (third_level bookTop))\<rparr>"

text \<open>The accumulation before a market-data callback (lines 97-98 and 157-158).\<close>

definition countMdEvent :: "'st FillSimulator \<Rightarrow> 'st FillSimulator" where
  "countMdEvent s =
     s\<lparr>totalMdEvents := totalMdEvents s + 1,
       totalMdToStrategyLatencyNs := totalMdToStrategyLatencyNs s + strategyMdLatencyNs s\<rparr>"

text \<open>
  The re-evaluation loop of \<open>processBookTop\<close> (unnamed/part\_000, lines 119-148)
  walks \<open>activeOrders_\<close>, a \<open>std::unordered_map\<close>, whose iteration order the
  language leaves open and which the fills inside the loop change.  The model takes
  the sequence of keys the iterator visits as the parameter \<open>visit\<close>; a key that is
  not in the map when its turn comes is passed over.  Every walk of the real loop is
  the walk along some such sequence.
\<close>

primrec reevaluateOrders ::
  "'st fill_fun \<Rightarrow> book_top_t \<Rightarrow> u64 list \<Rightarrow> 'st FillSimulator \<Rightarrow>
   sim_error + 'st FillSimulator" where
  "reevaluateOrders pf bookTop [] s = Inr s"
| "reevaluateOrders pf bookTop (k # visit) s =
     (case activeOrders s k of
        None \<Rightarrow> reevaluateOrders pf bookTop visit s
      | Some ord \<Rightarrow>
          if wouldOrderBeFilled s (orderId ord) (isBid ord) (price ord)
               (quantity ord - filledQuantity ord)
          then (case pf (orderId ord) (opposingPrice (isBid ord) bookTop)
                       (quantity ord - filledQuantity ord) (isBid ord)
                       (applyExchangeLatency s (md_ts ord)) s of
                  Inl e \<Rightarrow> Inl e
                | Inr s' \<Rightarrow> reevaluateOrders pf bookTop visit s')
          else reevaluateOrders pf bookTop visit s)"

text \<open>\<open>processBookTop\<close> (unnamed/part\_000, lines 57-149).\<close>

definition processBookTop ::
  "nat \<Rightarrow> source_variant \<Rightarrow> 'st Strategy \<Rightarrow> u64 list \<Rightarrow> book_top_t \<Rightarrow>
   'st FillSimulator \<Rightarrow> sim_error + 'st FillSimulator" where
  "processBookTop n v S visit bookTop s =
     (if bookTop_tooSoon s bookTop then Inr s
      else if bookTop_rejected v bookTop then Inr s
      else
        (let s1 = updateMarketState bookTop s;
             delayedBookTop = bookTop\<lparr>ts := applyMdLatency s1 (ts bookTop)\<rparr>;
             s2 = countMdEvent s1;
             r = onBookTopUpdate S (strategy s2) delayedBookTop
         in case processActions n v S (ts delayedBookTop) bookTop (fst r)
                   (s2\<lparr>strategy := snd r\<rparr>) of
              Inl e \<Rightarrow> Inl e
            | Inr s3 \<Rightarrow> reevaluateOrders (processFill n v S) bookTop visit s3))"

text \<open>\<open>processBookFill\<close> (unnamed/part\_000, lines 152-177).\<close>

definition processBookFill ::
  "nat \<Rightarrow> source_variant \<Rightarrow> 'st Strategy \<Rightarrow> book_fill_snapshot_t \<Rightarrow>
   'st FillSimulator \<Rightarrow> sim_error + 'st FillSimulator" where
  "processBookFill n v S fill s =
     (let delayedFill = fill\<lparr>fill_ts := applyMdLatency s (fill_ts fill)\<rparr>;
          s1 = countMdEvent s;
          r = onFill S (strategy s1) delayedFill
      in processActions n v S (fill_ts delayedFill) (lastBookTop s1) (fst r)
           (s1\<lparr>strategy := snd r\<rparr>))"

text \<open>
  \<open>runSimulation\<close> (unnamed/part\_000, lines 468-542): the two input streams are
  merged by timestamp, a book top going first on a tie.  Each top comes with the
  sequence of keys its re-evaluation loop visits.  The progress printing is left out;
  \<open>setSymbolId\<close>, called once before the loop, only changes the strategy's state,
  which is arbitrary at the start of a run.
\<close>

fun runSimulation ::
  "nat \<Rightarrow> source_variant \<Rightarrow> 'st Strategy \<Rightarrow> (book_top_t \<times> u64 list) list \<Rightarrow>
   book_fill_snapshot_t list \<Rightarrow> 'st FillSimulator \<Rightarrow> sim_error + 'st FillSimulator" where
  "runSimulation n v S [] [] s = Inr s"
| "runSimulation n v S (tp # tops) [] s =
     (case processBookTop n v S (snd tp) (fst tp) s of
        Inl e \<Rightarrow> Inl e
      | Inr s' \<Rightarrow> runSimulation n v S tops [] s')"
| "runSimulation n v S [] (bookFill # fills) s =
     (case processBookFill n v S bookFill s of
        Inl e \<Rightarrow> Inl e
      | Inr s' \<Rightarrow> runSimulation n v S [] fills s')"
| "runSimulation n v S (tp # tops) (bookFill # fills) s =
     (if ts (fst tp) \<le> fill_ts bookFill
      then (case processBookTop n v S (snd tp) (fst tp) s of
              Inl e \<Rightarrow> Inl e
            | Inr s' \<Rightarrow> runSimulation n v S tops (bookFill # fills) s')
      else (case processBookFill n v S bookFill s of
              Inl e \<Rightarrow> Inl e
            | Inr s' \<Rightarrow> runSimulation n v S (tp # tops) fills s'))"

section \<open>Queue mode: the reconstructed book (unnamed/part\_000, lines 544-1064)\<close>

text \<open>
  \<open>order_t\<close>, the entry of a price level's FIFO.  A \<open>std::list\<close> node is paired with
  the address that identifies it, since \<open>order_ref_t\<close> keeps an iterator to the node
  and two nodes of a queue may hold the same order id.  \<open>book_side_t\<close> is a
  \<open>std::map\<close> from price to level: an association list kept in increasing signed
  order of the keys, so that \<open>begin()\<close> is the head and \<open>rbegin()\<close> the last element.
\<close>

record order_t =
  ord_id :: u64
  qty :: u32
  ord_timestamp :: u64

type_synonym order_queue_t = "(nat \<times> order_t) list"
type_synonym level_t = "u32 \<times> order_queue_t"
type_synonym book_side_t = "(i64 \<times> level_t) list"

record order_ref_t =
  ref_price :: i64
  ref_is_bid :: bool
  order_it :: nat

record OrderBook =
  bid_book :: book_side_t
  ask_book :: book_side_t
  order_map :: "u64 \<rightharpoonup> order_ref_t"
  currentTop :: book_top_t
  next_node :: nat

text \<open>
  The local state at the start of \<open>runQueueSimulation\<close> (lines 559-576).  The second
  and third level of \<open>currentTop\<close> are not initialised there; \<open>updateTopLevels\<close>
  assigns them before \<open>currentTop\<close> is first passed on.
\<close>

definition OrderBook_init :: OrderBook where
  "OrderBook_init =
     \<lparr>bid_book = [], ask_book = [], order_map = Map.empty,
      currentTop = \<lparr>ts = 0, seqno = 0,
        top_level = \<lparr>bid_nanos = 0, ask_nanos = INT64_MAX, bid_qty = 0, ask_qty = 0\<rparr>,
        second_level = book_top_level_zero, third_level = book_top_level_zero\<rparr>,
      next_node = 0\<rparr>"

text \<open>The operations of \<open>std::map\<close> that the code uses on a book side.\<close>

definition book_find :: "i64 \<Rightarrow> book_side_t \<Rightarrow> level_t option" where
  "book_find p b = map_of b p"

fun book_put :: "i64 \<Rightarrow> level_t \<Rightarrow> book_side_t \<Rightarrow> book_side_t" where
  "book_put p lv [] = [(p, lv)]"
| "book_put p lv ((q, lq) # b) =
     (if p = q then (p, lv) # b
      else if p <s q then (p, lv) # (q, lq) # b
      else (q, lq) # book_put p lv b)"

definition book_erase :: "i64 \<Rightarrow> book_side_t \<Rightarrow> book_side_t" where
  "book_erase p b = filter (\<lambda>e. fst e \<noteq> p) b"

definition queue_erase :: "nat \<Rightarrow> order_queue_t \<Rightarrow> order_queue_t" where
  "queue_erase node q = filter (\<lambda>e. fst e \<noteq> node) q"

definition queue_assign :: "nat \<Rightarrow> order_t \<Rightarrow> order_queue_t \<Rightarrow> order_queue_t" where
  "queue_assign node ord q = map (\<lambda>e. if fst e = node then (node, ord) else e) q"

definition book_side :: "OrderBook \<Rightarrow> bool \<Rightarrow> book_side_t" where
  "book_side b is_bid' = (if is_bid' then bid_book b else ask_book b)"

definition set_book_side :: "bool \<Rightarrow> book_side_t \<Rightarrow> OrderBook \<Rightarrow> OrderBook" where
  "set_book_side is_bid' bs b = (if is_bid' then b\<lparr>bid_book := bs\<rparr> else b\<lparr>ask_book := bs\<rparr>)"

text \<open>
  The test \<open>(ref.is_bid && ref.price == currentTop.top_level.bid_nanos) ||
  (!ref.is_bid && ref.price == currentTop.top_level.ask_nanos)\<close>.
\<close>

definition at_top :: "order_ref_t \<Rightarrow> OrderBook \<Rightarrow> bool" where
  "at_top r b =
     ((ref_is_bid r \<and> ref_price r = bid_nanos (top_level (currentTop b))) \<or>
      (\<not> ref_is_bid r \<and> ref_price r = ask_nanos (top_level (currentTop b))))"

text \<open>
  The insertion shared by \<open>add_order\<close> (lines 679-707) and the second half of
  \<open>replace_order\<close> (lines 783-809).  The result is the book and \<open>topChanged\<close>.
\<close>

definition insert_order ::
  "i64 \<Rightarrow> u64 \<Rightarrow> u32 \<Rightarrow> bool \<Rightarrow> u64 \<Rightarrow> OrderBook \<Rightarrow> OrderBook \<times> bool" where
  "insert_order p oid q is_bid' t b =
     (let bs = book_side b is_bid';
          bs1 = (if book_find p bs = None then book_put p (0, []) bs else bs);
          level = (case book_find p bs1 of Some lv \<Rightarrow> lv | None \<Rightarrow> (0, []));
          node = next_node b;
          level' = (fst level + q,
                    snd level @ [(node, \<lparr>ord_id = oid, qty = q, ord_timestamp = t\<rparr>)]);
          b' = (set_book_side is_bid' (book_put p level' bs1) b)
                 \<lparr>order_map := (order_map b)(oid \<mapsto>
                      \<lparr>ref_price = p, ref_is_bid = is_bid', order_it = node\<rparr>),
                   next_node := Suc node\<rparr>;
          topChanged =
            ((is_bid' \<and> (bid_book b' = [] \<or> fst (last (bid_book b')) \<le>s p)) \<or>
             (\<not> is_bid' \<and> (ask_book b' = [] \<or> p \<le>s fst (hd (ask_book b')))))
      in (b', topChanged))"

text \<open>
  \<open>delete_order\<close> (lines 714-741).  Reading \<open>ref.order_it->qty\<close> needs the node to be
  alive; a node whose level was erased with it still in the queue is gone, and the
  model fails.
\<close>

definition delete_order :: "u64 \<Rightarrow> OrderBook \<Rightarrow> sim_error + OrderBook \<times> bool" where
  "delete_order oid b =
     (case order_map b oid of
        None \<Rightarrow> Inr (b, False)
      | Some r \<Rightarrow>
          (case book_find (ref_price r) (book_side b (ref_is_bid r)) of
             None \<Rightarrow> Inr (b\<lparr>order_map := (order_map b)(oid := None)\<rparr>, False)
           | Some level \<Rightarrow>
               (case map_of (snd level) (order_it r) of
                  None \<Rightarrow> Inl InvalidatedIterator
                | Some ord \<Rightarrow>
                    (let levelQty = fst level - qty ord;
                         topChanged = at_top r b;
                         queue = queue_erase (order_it r) (snd level);
                         bs = book_side b (ref_is_bid r);
                         bs' = (if levelQty = 0 then book_erase (ref_price r) bs
                                else book_put (ref_price r) (levelQty, queue) bs)
                     in Inr ((set_book_side (ref_is_bid r) bs' b)
                               \<lparr>order_map := (order_map b)(oid := None)\<rparr>, topChanged)))))"

text \<open>
  \<open>replace_order\<close> (lines 745-811).  When the original order is found, it is deleted
  and \<open>order_map.erase(orderIt)\<close> runs (line 776); the side of the new order is then
  computed (lines 780-781) as \<open>(orderIt != order_map.end()) ? orderIt->second.is_bid :
  (replaceOrder.price > 0)\<close>, which compares and dereferences the erased iterator:
  the model fails with \<open>InvalidatedIterator\<close>.  When the original is not found,
  \<open>orderIt\<close> is \<open>end()\<close> and the side is \<open>replaceOrder.price > 0\<close>.
\<close>

definition replace_order ::
  "i64 \<Rightarrow> u64 \<Rightarrow> u64 \<Rightarrow> u32 \<Rightarrow> u64 \<Rightarrow> OrderBook \<Rightarrow> sim_error + OrderBook \<times> bool" where
  "replace_order p orig_order_id new_order_id q t b =
     (case order_map b orig_order_id of
        Some r \<Rightarrow>
          (case delete_order orig_order_id b of
             Inl e \<Rightarrow> Inl e
           | Inr deleted \<Rightarrow> Inl InvalidatedIterator)
      | None \<Rightarrow> Inr (insert_order p new_order_id q (0 <s p) t b))"

text \<open>\<open>amend_order\<close> (lines 817-841).\<close>

definition amend_order :: "u64 \<Rightarrow> u32 \<Rightarrow> u64 \<Rightarrow> OrderBook \<Rightarrow> sim_error + OrderBook \<times> bool" where
  "amend_order oid new_qty t b =
     (case order_map b oid of
        None \<Rightarrow> Inr (b, False)
      | Some r \<Rightarrow>
          (case book_find (ref_price r) (book_side b (ref_is_bid r)) of
             None \<Rightarrow> Inr (b, False)
           | Some level \<Rightarrow>
               (case map_of (snd level) (order_it r) of
                  None \<Rightarrow> Inl InvalidatedIterator
                | Some ord \<Rightarrow>
                    (let oldQty = qty ord;
                         qtyDelta = new_qty - oldQty;
                         ord' = ord\<lparr>qty := new_qty, ord_timestamp := t\<rparr>;
                         level' = (fst level + qtyDelta,
                                   queue_assign (order_it r) ord' (snd level))
                     in Inr (set_book_side (ref_is_bid r)
                               (book_put (ref_price r) level' (book_side b (ref_is_bid r))) b,
                             at_top r b)))))"

text \<open>
  \<open>reduce_order\<close> (lines 849-880).  The subtractions are on \<open>uint32_t\<close>.  When the
  quantity reaches zero the node and the map entry are erased (lines 865-866) and
  \<open>ref\<close>, a reference into the erased map entry, is read afterwards (lines 874-875):
  the model fails there.
\<close>

definition reduce_order :: "u64 \<Rightarrow> u32 \<Rightarrow> u64 \<Rightarrow> OrderBook \<Rightarrow> sim_error + OrderBook \<times> bool" where
  "reduce_order oid cxled_qty t b =
     (case order_map b oid of
        None \<Rightarrow> Inr (b, False)
      | Some r \<Rightarrow>
          (case book_find (ref_price r) (book_side b (ref_is_bid r)) of
             None \<Rightarrow> Inr (b, False)
           | Some level \<Rightarrow>
               (case map_of (snd level) (order_it r) of
                  None \<Rightarrow> Inl InvalidatedIterator
                | Some ord \<Rightarrow>
                    (let ord' = ord\<lparr>qty := qty ord - cxled_qty, ord_timestamp := t\<rparr>;
                         level' = (fst level - cxled_qty,
                                   queue_assign (order_it r) ord' (snd level))
                     in if qty ord' = 0 then Inl InvalidatedIterator
                        else Inr (set_book_side (ref_is_bid r)
                                    (book_put (ref_price r) level'
                                       (book_side b (ref_is_bid r))) b,
                                  False)))))"

text \<open>
  \<open>execute_order\<close> (lines 888-947) and \<open>execute_order_at_price\<close> (lines 955-1014),
  which differ in the trade price of the fill: the stored price, or the event's
  execution price.  The result carries the fill handed to \<open>processBookFill\<close>.  As in
  \<open>reduce_order\<close>, draining the order erases the map entry (lines 933, 1000) before
  \<open>ref\<close> is read again (lines 941, 1008).
\<close>

definition execute_order ::
  "u64 \<Rightarrow> u32 \<Rightarrow> u64 \<Rightarrow> i64 option \<Rightarrow> u64 \<Rightarrow> u64 \<Rightarrow> OrderBook \<Rightarrow>
   sim_error + OrderBook \<times> bool \<times> book_fill_snapshot_t option" where
  "execute_order oid traded_qty exec_id exec_price t seq b =
     (case order_map b oid of
        None \<Rightarrow> Inr (b, False, None)
      | Some r \<Rightarrow>
          (case book_find (ref_price r) (book_side b (ref_is_bid r)) of
             None \<Rightarrow> Inr (b, False, None)
           | Some level \<Rightarrow>
               (case map_of (snd level) (order_it r) of
                  None \<Rightarrow> Inl InvalidatedIterator
                | Some ord \<Rightarrow>
                    (let fill =
                           \<lparr>fill_ts = t, fill_seq_no = seq, resting_order_id = oid,
                            was_hidden = False,
                            trade_price = (case exec_price of None \<Rightarrow> ref_price r
                                           | Some px \<Rightarrow> px),
                            trade_qty = traded_qty, execution_id = exec_id,
                            resting_original_qty = qty ord,
                            resting_order_remaining_qty = qty ord - traded_qty,
                            resting_order_last_update_ts = ord_timestamp ord,
                            resting_side_is_bid = ref_is_bid r,
                            resting_side_price = ref_price r,
                            resting_side_qty = fst level,
                            opposing_side_price =
                              (if ref_is_bid r
                               then (if ask_book b = [] then INT64_MAX
                                     else fst (hd (ask_book b)))
                               else (if bid_book b = [] then 0
                                     else fst (last (bid_book b)))),
                            opposing_side_qty =
                              (if ref_is_bid r
                               then (if ask_book b = [] then 0
                                     else fst (snd (hd (ask_book b))))
                               else (if bid_book b = [] then 0
                                     else fst (snd (last (bid_book b)))))\<rparr>;
                         ord' = ord\<lparr>qty := qty ord - traded_qty\<rparr>;
                         level' = (fst level - traded_qty,
                                   queue_assign (order_it r) ord' (snd level))
                     in if qty ord' = 0 then Inl InvalidatedIterator
                        else Inr (set_book_side (ref_is_bid r)
                                    (book_put (ref_price r) level'
                                       (book_side b (ref_is_bid r))) b,
                                  False, Some fill)))))"

text \<open>The events of the stream: the header fields and the payload of each type.\<close>

datatype book_event_body =
  Add_order i64 u64 u32 bool \<comment> \<open>price, order id, qty, is\_bid\<close>
| Delete_order u64
| Replace_order i64 u64 u64 u32 \<comment> \<open>price, original id, new id, qty\<close>
| Amend_order u64 u32
| Reduce_order u64 u32
| Execute_order u64 u32 u64 \<comment> \<open>order id, traded qty, execution id\<close>
| Execute_order_at_price u64 u32 u64 i64
| Clear_book
| Other_event \<comment> \<open>\<open>session_event\<close>, \<open>hidden_trade\<close>, \<open>invalid\<close>: the \<open>default\<close> branch\<close>

record book_event =
  ev_ts :: u64
  ev_seq_no :: u64
  ev_body :: book_event_body

text \<open>The \<open>switch\<close> over the event type (lines 674-1030).\<close>

definition applyBookEvent ::
  "book_event \<Rightarrow> OrderBook \<Rightarrow> sim_error + OrderBook \<times> bool \<times> book_fill_snapshot_t option"
  where
  "applyBookEvent ev b =
     (let noFill = (\<lambda>r. case r of Inl e \<Rightarrow> Inl e | Inr (b', c) \<Rightarrow> Inr (b', c, None)) in
      case ev_body ev of
        Add_order p oid q is_bid' \<Rightarrow> noFill (Inr (insert_order p oid q is_bid' (ev_ts ev) b))
      | Delete_order oid \<Rightarrow> noFill (delete_order oid b)
      | Replace_order p orig new q \<Rightarrow> noFill (replace_order p orig new q (ev_ts ev) b)
      | Amend_order oid new_qty \<Rightarrow> noFill (amend_order oid new_qty (ev_ts ev) b)
      | Reduce_order oid cxled_qty \<Rightarrow> noFill (reduce_order oid cxled_qty (ev_ts ev) b)
      | Execute_order oid traded exec_id \<Rightarrow>
          execute_order oid traded exec_id None (ev_ts ev) (ev_seq_no ev) b
      | Execute_order_at_price oid traded exec_id px \<Rightarrow>
          execute_order oid traded exec_id (Some px) (ev_ts ev) (ev_seq_no ev) b
      | Clear_book \<Rightarrow>
          Inr (b\<lparr>bid_book := [], ask_book := [], order_map := Map.empty\<rparr>, True, None)
      | Other_event \<Rightarrow> Inr (b, False, None))"

text \<open>
  \<open>updateTopLevels\<close> (lines 578-663): the best three levels of each side, with
  \<open>0\<close> and \<open>INT64_MAX\<close> where a side has fewer, and the reset of a top price above
  \<open>MAX_REASONABLE_PRICE\<close>.  \<open>levels\<close> is a side listed from its best level.
\<close>

definition level_price :: "book_side_t \<Rightarrow> nat \<Rightarrow> i64 \<Rightarrow> i64" where
  "level_price levels i dflt = (if i < length levels then fst (levels ! i) else dflt)"

definition level_qty :: "book_side_t \<Rightarrow> nat \<Rightarrow> u32" where
  "level_qty levels i = (if i < length levels then fst (snd (levels ! i)) else 0)"

definition updateTopLevels :: "OrderBook \<Rightarrow> book_top_t" where
  "updateTopLevels b =
     (let bids = rev (bid_book b);
          asks = ask_book b;
          mk = (\<lambda>i. \<lparr>bid_nanos = level_price bids i 0,
                      ask_nanos = level_price asks i INT64_MAX,
                      bid_qty = level_qty bids i, ask_qty = level_qty asks i\<rparr>);
          top0 = mk 0;
          top1 = (if MAX_REASONABLE_PRICE <s bid_nanos top0
                  then top0\<lparr>bid_nanos := 0, bid_qty := 0\<rparr> else top0);
          top2 = (if MAX_REASONABLE_PRICE <s ask_nanos top1 \<and> ask_nanos top1 \<noteq> INT64_MAX
                  then top1\<lparr>ask_nanos := INT64_MAX, ask_qty := 0\<rparr> else top1)
      in (currentTop b)\<lparr>top_level := top2, second_level := mk 1, third_level := mk 2\<rparr>)"

text \<open>
  One turn of the loop of \<open>runQueueSimulation\<close> (lines 667-1040): the header's
  timestamp and sequence number go into \<open>currentTop\<close>, the event is applied, a
  synthesized fill goes to \<open>processBookFill\<close>, and when the top changed
  \<open>updateTopLevels\<close> runs and \<open>currentTop\<close> goes to \<open>processBookTop\<close>.  Queue mode
  exists only in unnamed/part\_000.
\<close>

definition queueStep ::
  "nat \<Rightarrow> 'st Strategy \<Rightarrow> u64 list \<Rightarrow> book_event \<Rightarrow> OrderBook \<times> 'st FillSimulator \<Rightarrow>
   sim_error + OrderBook \<times> 'st FillSimulator" where
  "queueStep n S visit ev st =
     (let b0 = (fst st)\<lparr>currentTop := (currentTop (fst st))\<lparr>ts := ev_ts ev, seqno := ev_seq_no ev\<rparr>\<rparr>
      in case applyBookEvent ev b0 of
           Inl e \<Rightarrow> Inl e
         | Inr (b1, topChanged, fill) \<Rightarrow>
             (case (case fill of None \<Rightarrow> Inr (snd st)
                    | Some f \<Rightarrow> processBookFill n Part000 S f (snd st)) of
                Inl e \<Rightarrow> Inl e
              | Inr s1 \<Rightarrow>
                  if topChanged
                  then (let b2 = b1\<lparr>currentTop := updateTopLevels b1\<rparr> in
                        case processBookTop n Part000 S visit (currentTop b2) s1 of
                          Inl e \<Rightarrow> Inl e
                        | Inr s2 \<Rightarrow> Inr (b2, s2))
                  else Inr (b1, s1)))"

primrec runQueueSimulation ::
  "nat \<Rightarrow> 'st Strategy \<Rightarrow> (book_event \<times> u64 list) list \<Rightarrow> OrderBook \<times> 'st FillSimulator \<Rightarrow>
   sim_error + OrderBook \<times> 'st FillSimulator" where
  "runQueueSimulation n S [] st = Inr st"
| "runQueueSimulation n S (e # events) st =
     (case queueStep n S (snd e) (fst e) st of
        Inl x \<Rightarrow> Inl x
      | Inr st' \<Rightarrow> runQueueSimulation n S events st')"

section \<open>The basic strategy's new order\<close>

text \<open>
  The buy order that \<open>BasicStrategy::updateOrdersForBookTop\<close> builds
  (strategies/basic\_strategy.cpp, lines 154-170) from the book top it was handed, its
  next order id and its symbol id: \<open>sent_ts\<close> and \<open>md_ts\<close> are both the
  timestamp of that book top.
\<close>

definition BasicStrategy_newBid :: "u64 \<Rightarrow> u64 \<Rightarrow> book_top_t \<Rightarrow> OrderAction" where
  "BasicStrategy_newBid nextOrderId symbolId' bookTop =
     \<lparr>act_type = ADD, act_orderId = nextOrderId, act_symbolId = ucast symbolId',
      act_sent_ts = ts bookTop, act_md_ts = ts bookTop,
      act_price = bid_nanos (top_level bookTop), act_quantity = 1, act_isBid = True,
      act_isPostOnly = False\<rparr>"

section \<open>Concrete inputs\<close>

text \<open>
  The book top of the specification's scenarios S1 to S3 (bid 99, ask 101 at
  \<open>ts = 1000000\<close>), and a simulator with zero latencies that has stored it.
\<close>

definition example_top :: book_top_t where
  "example_top =
     \<lparr>ts = 1000000, seqno = 1,
      top_level = \<lparr>bid_nanos = 99, ask_nanos = 101, bid_qty = 5, ask_qty = 5\<rparr>,
      second_level = book_top_level_zero, third_level = book_top_level_zero\<rparr>"

definition example_sim :: "unit FillSimulator" where
  "example_sim = updateMarketState example_top (FillSimulator_init 0 0 ())"

text \<open>A strategy without state that never acts.\<close>

definition idle_strategy :: "unit Strategy" where
  "idle_strategy =
     \<lparr>onBookTopUpdate = (\<lambda>st bookTop. ([], st)),
      onFill = (\<lambda>st fill. ([], st)),
      onOrderFilled = (\<lambda>st oid fillPrice fillQty isBid'. ([], st))\<rparr>"

text \<open>The order of scenario S3: a post-only bid at the ask.\<close>

definition example_add :: OrderAction where
  "example_add =
     \<lparr>act_type = ADD, act_orderId = 1, act_symbolId = 7, act_sent_ts = 1000000,
      act_md_ts = 1000000, act_price = 101, act_quantity = 10, act_isBid = True,
      act_isPostOnly = True\<rparr>"

text \<open>A book top at time \<open>t\<close> with the given best bid and ask.\<close>

definition top_of :: "u64 \<Rightarrow> i64 \<Rightarrow> i64 \<Rightarrow> book_top_t" where
  "top_of t bid ask =
     \<lparr>ts = t, seqno = 0,
      top_level = \<lparr>bid_nanos = bid, ask_nanos = ask, bid_qty = 1, ask_qty = 1\<rparr>,
      second_level = book_top_level_zero, third_level = book_top_level_zero\<rparr>"

text \<open>A strategy that answers every book top with the one action \<open>a\<close>.\<close>

definition one_shot_strategy :: "OrderAction \<Rightarrow> unit Strategy" where
  "one_shot_strategy a =
     \<lparr>onBookTopUpdate = (\<lambda>st bookTop. ([a], st)),
      onFill = (\<lambda>st fill. ([], st)),
      onOrderFilled = (\<lambda>st oid fillPrice fillQty isBid'. ([], st))\<rparr>"

text \<open>
  Scenario S4 (latencies 2000 and 5000, a top at \<open>ts = 10000000\<close>), with a bid at
  100 whose \<open>sent_ts\<close> the strategy has set to 5.
\<close>

definition stamped_add :: OrderAction where
  "stamped_add =
     \<lparr>act_type = ADD, act_orderId = 1, act_symbolId = 7, act_sent_ts = 5,
      act_md_ts = 5, act_price = 100, act_quantity = 1, act_isBid = True,
      act_isPostOnly = False\<rparr>"

definition S4_top :: book_top_t where
  "S4_top =
     \<lparr>ts = 10000000, seqno = 1,
      top_level = \<lparr>bid_nanos = 99, ask_nanos = 101, bid_qty = 5, ask_qty = 5\<rparr>,
      second_level = book_top_level_zero, third_level = book_top_level_zero\<rparr>"

text \<open>A simulator holding one resting bid for one share.\<close>

definition resting_bid :: OrderInfo where
  "resting_bid =
     \<lparr>orderId = 1, symbolId = 7, sent_ts = 1000000, md_ts = 1000000, price = 1999,
      quantity = 1, filledQuantity = 0, isBid = True, isPostOnly = False\<rparr>"

definition sim_with_bid :: "unit FillSimulator" where
  "sim_with_bid = example_sim\<lparr>activeOrders := [1 \<mapsto> resting_bid]\<rparr>"

text \<open>Book events: a bid at 99, an ask at 101, a better bid at 100, and a replace.\<close>

definition ev_add_bid_99 :: book_event where
  "ev_add_bid_99 = \<lparr>ev_ts = 1000000, ev_seq_no = 1, ev_body = Add_order 99 1 5 True\<rparr>"

definition ev_add_ask_101 :: book_event where
  "ev_add_ask_101 = \<lparr>ev_ts = 1000001, ev_seq_no = 2, ev_body = Add_order 101 2 5 False\<rparr>"

definition ev_add_bid_100 :: "u64 \<Rightarrow> book_event" where
  "ev_add_bid_100 t = \<lparr>ev_ts = t, ev_seq_no = 3, ev_body = Add_order 100 3 5 True\<rparr>"

definition ev_replace_bid :: book_event where
  "ev_replace_bid = \<lparr>ev_ts = 1000002, ev_seq_no = 3, ev_body = Replace_order 98 1 4 5\<rparr>"

text \<open>The book that holds the bid at 99 alone.\<close>

definition book_with_bid :: OrderBook where
  "book_with_bid = fst (insert_order 99 1 5 True 1000000 OrderBook_init)"

text \<open>A strategy that counts the book tops it is shown and never acts.\<close>

definition counting_strategy :: "nat Strategy" where
  "counting_strategy =
     \<lparr>onBookTopUpdate = (\<lambda>st bookTop. ([], Suc st)),
      onFill = (\<lambda>st fill. ([], st)),
      onOrderFilled = (\<lambda>st oid fillPrice fillQty isBid'. ([], st))\<rparr>"

text \<open>What the concrete runs below are observed through.\<close>

definition stamping_view ::
  "'st FillSimulator \<Rightarrow> u64 list \<times> u64 option \<times> u64 option \<times> u64" where
  "stamping_view s =
     (map timestamp (outputFile s), map_option md_ts (activeOrders s 1),
      map_option sent_ts (activeOrders s 1), totalStrategyToExchangeLatencyNs s)"

definition pnl_view :: "'st FillSimulator \<Rightarrow> i64 \<times> i64 \<times> i64 list \<times> u32 list" where
  "pnl_view s =
     (position s, cashFlow s, map rec_price (outputFile s), map rec_quantity (outputFile s))"

definition queue_view :: "OrderBook \<times> 'st FillSimulator \<Rightarrow> 'st \<times> i64 \<times> i64 \<times> i64 \<times> u64" where
  "queue_view st =
     (strategy (snd st), bid_nanos (top_level (lastBookTop (snd st))),
      bid_nanos (top_level (currentTop (fst st))),
      ask_nanos (top_level (currentTop (fst st))), ts (currentTop (fst st)))"

section \<open>Predicates used in the proofs\<close>

text \<open>
  The part of the state that only \<open>processBookTop\<close> and \<open>processBookFill\<close> themselves
  assign, and the property of a fill function to leave it alone.
\<close>

definition market_view ::
  "'st FillSimulator \<Rightarrow> book_top_t \<times> u64 \<times> u64 \<times> u64 \<times> i64 \<times> u64 \<times> u64" where
  "market_view s =
     (lastBookTop s, lastProcessedTime s, totalMdEvents s, totalMdToStrategyLatencyNs s,
      lastValidMidPrice s, strategyMdLatencyNs s, exchangeLatencyNs s)"

definition keeps_market :: "'st fill_fun \<Rightarrow> bool" where
  "keeps_market pf =
     (\<forall>oid fp fq b t s s'. pf oid fp fq b t s = Inr s' \<longrightarrow> market_view s' = market_view s)"

text \<open>
  The invariant of the active set: an order is stored under its own id and has no
  partial fill.  A fill function keeps it when it is called, as the simulator calls
  it, with the whole quantity of the order it fills.
\<close>

definition orders_inv :: "'st FillSimulator \<Rightarrow> bool" where
  "orders_inv s =
     (\<forall>k ord. activeOrders s k = Some ord \<longrightarrow> orderId ord = k \<and> filledQuantity ord = 0)"

definition fills_whole :: "'st fill_fun \<Rightarrow> bool" where
  "fills_whole pf =
     (\<forall>oid fp fq b t s s'.
        orders_inv s \<and> (\<forall>ord. activeOrders s oid = Some ord \<longrightarrow> fq = quantity ord) \<and>
        pf oid fp fq b t s = Inr s' \<longrightarrow> orders_inv s')"

section \<open>Facts about the concrete inputs\<close>

lemma example_sim_ask [simp]: "ask_nanos (top_level (lastBookTop example_sim)) = 101"
  by (simp add: example_sim_def example_top_def updateMarketState_def)

lemma example_sim_bid [simp]: "bid_nanos (top_level (lastBookTop example_sim)) = 99"
  by (simp add: example_sim_def example_top_def updateMarketState_def)

section \<open>wouldOrderBeFilled\<close>

text \<open>
  Claim C1.  \<open>wouldOrderBeFilled\<close> is false whenever the price is not positive or the
  quantity is zero.  For a positive price and a nonzero quantity, a bid fills exactly
  when the stored best ask is positive, is not \<open>INT64_MAX\<close> and is at most the
  price; an ask fills exactly when the stored best bid is positive, is not
  \<open>INT64_MAX\<close> and is at least the price.  The function returns a flag computed from
  the state and has no state to return: nothing is mutated.
\<close>

theorem wouldOrderBeFilled_spec:
  "(price' \<le>s 0 \<or> quantity' = 0 \<longrightarrow> \<not> wouldOrderBeFilled s oid b price' quantity') \<and>
   (0 <s price' \<and> quantity' \<noteq> 0 \<longrightarrow>
      wouldOrderBeFilled s oid True price' quantity' =
        (0 <s ask_nanos (top_level (lastBookTop s)) \<and>
         ask_nanos (top_level (lastBookTop s)) \<noteq> INT64_MAX \<and>
         ask_nanos (top_level (lastBookTop s)) \<le>s price') \<and>
      wouldOrderBeFilled s oid False price' quantity' =
        (0 <s bid_nanos (top_level (lastBookTop s)) \<and>
         bid_nanos (top_level (lastBookTop s)) \<noteq> INT64_MAX \<and>
         price' \<le>s bid_nanos (top_level (lastBookTop s))))"
  by (auto simp add: wouldOrderBeFilled_def Let_def signed.not_le signed.not_less)

theorem wouldOrderBeFilled_spec_witness:
  "wouldOrderBeFilled example_sim 1 True 101 10 \<and>
   \<not> wouldOrderBeFilled example_sim 1 True 100 10 \<and>
   wouldOrderBeFilled example_sim 1 False 99 10 \<and>
   \<not> wouldOrderBeFilled example_sim 1 False 100 10 \<and>
   \<not> wouldOrderBeFilled example_sim 1 True 0 10 \<and>
   \<not> wouldOrderBeFilled example_sim 1 True 101 0"
  using wouldOrderBeFilled_spec [of 101 10 example_sim 1 True]
    wouldOrderBeFilled_spec [of 100 10 example_sim 1 True]
    wouldOrderBeFilled_spec [of 99 10 example_sim 1 True]
    wouldOrderBeFilled_spec [of 0 10 example_sim 1 True]
    wouldOrderBeFilled_spec [of 101 0 example_sim 1 True]
  by (simp add: INT64_MAX_def word_sless_alt word_sle_eq)

section \<open>Post-only orders that cross\<close>

lemma wouldOrderBeFilled_lastBookTop:
  "lastBookTop s' = lastBookTop s \<Longrightarrow> wouldOrderBeFilled s' = wouldOrderBeFilled s"
  by (simp add: wouldOrderBeFilled_def fun_eq_iff)

lemma lastBookTop_processAction_add [simp]:
  "lastBookTop (processAction_add a s) = lastBookTop s"
  by (simp add: processAction_add_def writeOrderRecord_def)

lemma wouldOrderBeFilled_processAction_add [simp]:
  "wouldOrderBeFilled (processAction_add a s) = wouldOrderBeFilled s"
  by (rule wouldOrderBeFilled_lastBookTop) simp

lemma wouldOrderBeFilled_processAction_head [simp]:
  "wouldOrderBeFilled (processAction_head a s) = wouldOrderBeFilled s"
  by (rule wouldOrderBeFilled_lastBookTop) (simp add: processAction_head_def)

text \<open>
  Claim C2.  An \<open>ADD\<close> action that is post-only and would fill against the stored
  top: \<open>processAction\<close> returns (whatever the bound on nesting, the variant, the
  strategy and the book top passed in), the order is not in the active set
  afterwards and no other order is touched, the output grew by exactly the add
  record (event type 1) followed by the cancel record (event type 2), and position,
  cash flow and the count of filled orders are unchanged.
\<close>

theorem post_only_add_cancelled:
  assumes "act_type a = ADD" and "act_isPostOnly a"
    and "wouldOrderBeFilled s (act_orderId a) (act_isBid a) (act_price a) (act_quantity a)"
  shows "\<exists>s'. processAction n v S a bookTop s = Inr s' \<and>
           activeOrders s' (act_orderId a) = None \<and>
           (\<forall>k. k \<noteq> act_orderId a \<longrightarrow> activeOrders s' k = activeOrders s k) \<and>
           outputFile s' = outputFile s @ [action_record 1 a, action_record 2 a] \<and>
           event_type (action_record 1 a) = 1 \<and> event_type (action_record 2 a) = 2 \<and>
           position s' = position s \<and> cashFlow s' = cashFlow s \<and>
           totalOrdersFilled s' = totalOrdersFilled s"
proof -
  have "processAction n v S a bookTop s =
          Inr (processAction_add_postOnly a (processAction_add a (processAction_head a s)))"
    using assms by (simp add: processAction_def processAction_body_def Let_def)
  then show ?thesis
    by (simp add: processAction_add_postOnly_def processAction_add_def processAction_head_def
        writeOrderRecord_def action_record_def)
qed

theorem post_only_add_cancelled_witness:
  "\<exists>s'. processAction 0 Part000 idle_strategy example_add example_top example_sim = Inr s' \<and>
      activeOrders s' 1 = None \<and>
      outputFile s' = [action_record 1 example_add, action_record 2 example_add] \<and>
      position s' = 0 \<and> cashFlow s' = 0 \<and> totalOrdersFilled s' = 0"
proof -
  have w: "wouldOrderBeFilled example_sim (act_orderId example_add) (act_isBid example_add)
             (act_price example_add) (act_quantity example_add)"
    by (simp add: wouldOrderBeFilled_def example_add_def INT64_MAX_def word_sle_eq)
  have a: "act_type example_add = ADD" "act_isPostOnly example_add"
    by (simp_all add: example_add_def)
  have o: "outputFile example_sim = []" "position example_sim = 0" "cashFlow example_sim = 0"
    "totalOrdersFilled example_sim = 0" "act_orderId example_add = 1"
    by (simp_all add: example_sim_def updateMarketState_def FillSimulator_init_def example_add_def)
  show ?thesis
    using post_only_add_cancelled [OF a w, of 0 Part000 idle_strategy example_top]
    by (auto simp add: o)
qed

section \<open>What the action processing leaves alone\<close>

lemma market_view_simps [simp]:
  "market_view (processAction_head a s) = market_view s"
  "market_view (processAction_add a s) = market_view s"
  "market_view (processAction_add_postOnly a s) = market_view s"
  "market_view (processAction_cancel a ord s) = market_view s"
  "market_view (processAction_replace a ord s) = market_view s"
  "market_view (processFill_update v oid ord fp fq b t s) = market_view s"
  "market_view (s\<lparr>totalStrategyToExchangeLatencyNs := y\<rparr>) = market_view s"
  "market_view (s\<lparr>strategy := z\<rparr>) = market_view s"
  by (simp_all add: market_view_def processAction_add_def processAction_add_postOnly_def
      processAction_cancel_def processAction_replace_def processFill_update_def
      writeOrderRecord_def Let_def processAction_head_def)

lemma keeps_marketD: "keeps_market pf \<Longrightarrow> pf oid fp fq b t s = Inr s' \<Longrightarrow> market_view s' = market_view s"
  unfolding keeps_market_def by blast

lemma keeps_market_processAction_body:
  assumes k: "keeps_market pf" and r: "processAction_body pf a bt s = Inr s'"
  shows "market_view s' = market_view s"
proof (cases "act_type a")
  case ADD
  with r show ?thesis
    by (auto simp add: processAction_body_def Let_def split: if_splits dest!: keeps_marketD [OF k])
next
  case CANCEL
  with r show ?thesis
    by (auto simp add: processAction_body_def Let_def split: option.splits)
next
  case REPLACE
  with r show ?thesis
    by (auto simp add: processAction_body_def Let_def split: option.splits if_splits dest!: keeps_marketD [OF k])
qed

lemma keeps_market_processActions_body:
  assumes "keeps_market pf"
  shows "processActions_body pf t bt as s = Inr s' \<Longrightarrow> market_view s' = market_view s"
proof (induction as arbitrary: s)
  case Nil
  then show ?case by simp
next
  case (Cons a as)
  from Cons.prems obtain s1 where
    1: "processAction_body pf (delayAction s t a) bt
          (s\<lparr>totalStrategyToExchangeLatencyNs :=
                  totalStrategyToExchangeLatencyNs s + exchangeLatencyNs s\<rparr>) = Inr s1"
    and 2: "processActions_body pf t bt as s1 = Inr s'"
    by (auto split: sum.splits)
  from keeps_market_processAction_body [OF assms 1] Cons.IH [OF 2]
  show ?case by simp
qed

lemma keeps_market_processFill_body:
  assumes "keeps_market pf"
  shows "keeps_market (processFill_body pf v S)"
  unfolding keeps_market_def
proof (intro allI impI)
  fix oid fp fq b t s s'
  assume r: "processFill_body pf v S oid fp fq b t s = Inr s'"
  show "market_view s' = market_view s"
  proof (cases "activeOrders s oid")
    case None
    with r show ?thesis by (simp add: processFill_body_def)
  next
    case (Some ord)
    show ?thesis
    proof (cases "fp \<le>s 0 \<or> fp = INT64_MAX \<or> fq = 0")
      case True
      with r Some show ?thesis by (simp add: processFill_body_def)
    next
      case False
      with r Some obtain t' bt' acts s1 where
        "processActions_body pf t' bt' acts s1 = Inr s'" "market_view s1 = market_view s"
        by (simp add: processFill_body_def Let_def)
      with keeps_market_processActions_body [OF assms] show ?thesis by metis
    qed
  qed
qed

lemma keeps_market_processFill: "keeps_market (processFill n v S)"
proof (induction n)
  case 0
  show ?case by (simp add: keeps_market_def)
next
  case (Suc n)
  then show ?case by (simp add: keeps_market_processFill_body)
qed

lemma keeps_market_reevaluateOrders:
  assumes "keeps_market pf"
  shows "reevaluateOrders pf bt visit s = Inr s' \<Longrightarrow> market_view s' = market_view s"
proof (induction visit arbitrary: s)
  case Nil
  then show ?case by simp
next
  case (Cons k visit)
  show ?case
  proof (cases "activeOrders s k")
    case None
    with Cons show ?thesis by simp
  next
    case (Some ord)
    show ?thesis
    proof (cases "wouldOrderBeFilled s (orderId ord) (isBid ord) (price ord)
               (quantity ord - filledQuantity ord)")
      case False
      with Some Cons show ?thesis by simp
    next
      case True
      with Some Cons.prems obtain s1 where
        1: "pf (orderId ord) (opposingPrice (isBid ord) bt)
                       (quantity ord - filledQuantity ord) (isBid ord)
                       (applyExchangeLatency s (md_ts ord)) s = Inr s1"
        and 2: "reevaluateOrders pf bt visit s1 = Inr s'"
        by (auto split: sum.splits)
      from keeps_marketD [OF assms 1] Cons.IH [OF 2] show ?thesis by simp
    qed
  qed
qed

section \<open>The book-top acceptance filter\<close>

lemma MAX_REASONABLE_PRICE_value: "MAX_REASONABLE_PRICE = 10000000000000"
  by (simp add: MAX_REASONABLE_PRICE_def)

lemma sint_MAX [simp]: "sint MAX_REASONABLE_PRICE = 10000000000000"
  by (simp add: MAX_REASONABLE_PRICE_def)

lemma processBookTop_dropped:
  "bookTop_tooSoon s bt \<or> bookTop_rejected v bt \<Longrightarrow> processBookTop n v S visit bt s = Inr s"
  by (auto simp add: processBookTop_def)

lemma processBookTop_accepted:
  assumes "\<not> bookTop_tooSoon s bt" "\<not> bookTop_rejected v bt"
    and r: "processBookTop n v S visit bt s = Inr s'"
  shows "lastBookTop s' = bt \<and> lastProcessedTime s' = ts bt \<and>
         totalMdEvents s' = totalMdEvents s + 1"
proof -
  let ?s2 = "countMdEvent (updateMarketState bt s)"
  from assms obtain acts st s3 where
    1: "processActions_body (processFill n v S) (ts bt + strategyMdLatencyNs s) bt acts (?s2\<lparr>strategy := st\<rparr>) = Inr s3"
    and 2: "reevaluateOrders (processFill n v S) bt visit s3 = Inr s'"
    by (auto simp add: processBookTop_def Let_def processActions_def applyMdLatency_def updateMarketState_def
         split: sum.splits)
  from keeps_market_processActions_body [OF keeps_market_processFill 1]
    keeps_market_reevaluateOrders [OF keeps_market_processFill 2]
  have "market_view s' = market_view ?s2" by simp
  then show ?thesis
    by (simp add: market_view_def countMdEvent_def updateMarketState_def)
qed

lemma processActions_Nil [simp]: "processActions n v S t bt [] s = Inr s"
  by (simp add: processActions_def)

lemma processActions_Cons:
  "processActions n v S t bt (a # as) s =
     (case processAction n v S (delayAction s t a) bt
             (s\<lparr>totalStrategyToExchangeLatencyNs :=
                  totalStrategyToExchangeLatencyNs s + exchangeLatencyNs s\<rparr>) of
        Inl e \<Rightarrow> Inl e
      | Inr s' \<Rightarrow> processActions n v S t bt as s')"
  by (simp add: processActions_def processAction_def split: sum.splits)

lemma processBookTop_accepted_eq:
  "\<not> bookTop_tooSoon s bt \<Longrightarrow> \<not> bookTop_rejected v bt \<Longrightarrow>
      processBookTop n v S visit bt s =
        (case processActions n v S (ts bt + strategyMdLatencyNs s) bt
                (fst (onBookTopUpdate S (strategy s) (bt\<lparr>ts := ts bt + strategyMdLatencyNs s\<rparr>)))
                ((countMdEvent (updateMarketState bt s))
                   \<lparr>strategy := snd (onBookTopUpdate S (strategy s)
                                       (bt\<lparr>ts := ts bt + strategyMdLatencyNs s\<rparr>))\<rparr>) of
           Inl e \<Rightarrow> Inl e
         | Inr s3 \<Rightarrow> reevaluateOrders (processFill n v S) bt visit s3)"
  by (simp add: processBookTop_def Let_def applyMdLatency_def updateMarketState_def countMdEvent_def)

text \<open>
  Claim C3, amended.  In unnamed/part\_000 a top is dropped, with the state as it was
  and nothing written, when its bid or ask is not positive, when the bid is not
  below the ask, or when the bid or the ask exceeds \<open>10^13\<close>.  A top whose bid is
  \<open>10^13\<close> is therefore dropped whatever its ask is, because the ask would have to
  exceed the bid.  A top with a positive bid below its ask and an ask of at most
  \<open>10^13\<close> that the coalescer lets through is accepted: it becomes the stored top
  and the strategy's event counter grows.  src/fill\_simulator.cpp has no bound of
  \<open>10^13\<close>: it drops the two sentinel prices \<open>INT64_MAX\<close> instead and accepts every
  other top with a positive bid below its ask.
\<close>

theorem processBookTop_filter:
  fixes bt :: book_top_t
  defines "bid \<equiv> bid_nanos (top_level bt)" and "ask \<equiv> ask_nanos (top_level bt)"
  shows
  "(bid \<le>s 0 \<or> ask \<le>s 0 \<or> ask \<le>s bid \<or> 10000000000000 <s bid \<or> 10000000000000 <s ask
      \<longrightarrow> processBookTop n Part000 S visit bt s = Inr s) \<and>
   (bid = 10000000000000 \<longrightarrow> processBookTop n Part000 S visit bt s = Inr s) \<and>
   (0 <s bid \<and> bid <s ask \<and> ask \<le>s 10000000000000 \<and> \<not> bookTop_tooSoon s bt \<and>
    processBookTop n Part000 S visit bt s = Inr s'
      \<longrightarrow> lastBookTop s' = bt \<and> totalMdEvents s' = totalMdEvents s + 1) \<and>
   (bid \<le>s 0 \<or> ask \<le>s 0 \<or> ask \<le>s bid \<or> bid = INT64_MAX \<or> ask = INT64_MAX
      \<longrightarrow> processBookTop n FillSimulatorCpp S visit bt s = Inr s) \<and>
   (0 <s bid \<and> bid <s ask \<and> ask \<noteq> INT64_MAX \<and> \<not> bookTop_tooSoon s bt \<and>
    processBookTop n FillSimulatorCpp S visit bt s = Inr s'
      \<longrightarrow> lastBookTop s' = bt \<and> totalMdEvents s' = totalMdEvents s + 1)"
proof (intro conjI impI)
  assume "bid \<le>s 0 \<or> ask \<le>s 0 \<or> ask \<le>s bid \<or> 10000000000000 <s bid \<or> 10000000000000 <s ask"
  then have "bookTop_rejected Part000 bt"
    by (auto simp add: bookTop_rejected_def bid_def ask_def MAX_REASONABLE_PRICE_value)
  then show "processBookTop n Part000 S visit bt s = Inr s"
    by (simp add: processBookTop_dropped)
next
  assume b: "bid = 10000000000000"
  have "ask \<le>s bid \<or> 10000000000000 <s ask"
    unfolding b by (simp add: word_sle_eq word_sless_alt) linarith
  then have "bookTop_rejected Part000 bt"
    by (auto simp add: bookTop_rejected_def bid_def ask_def MAX_REASONABLE_PRICE_value)
  then show "processBookTop n Part000 S visit bt s = Inr s"
    by (simp add: processBookTop_dropped)
next
  assume a: "0 <s bid \<and> bid <s ask \<and> ask \<le>s 10000000000000 \<and> \<not> bookTop_tooSoon s bt \<and>
    processBookTop n Part000 S visit bt s = Inr s'"
  then have "\<not> bookTop_rejected Part000 bt"
    by (auto simp add: bookTop_rejected_def bid_def ask_def MAX_REASONABLE_PRICE_value
        word_sle_eq word_sless_alt)
  with a processBookTop_accepted [of s bt Part000 n S visit s']
  show "lastBookTop s' = bt" "totalMdEvents s' = totalMdEvents s + 1" by simp_all
next
  assume "bid \<le>s 0 \<or> ask \<le>s 0 \<or> ask \<le>s bid \<or> bid = INT64_MAX \<or> ask = INT64_MAX"
  then have "bookTop_rejected FillSimulatorCpp bt"
    by (auto simp add: bookTop_rejected_def bid_def ask_def)
  then show "processBookTop n FillSimulatorCpp S visit bt s = Inr s"
    by (simp add: processBookTop_dropped)
next
  assume a: "0 <s bid \<and> bid <s ask \<and> ask \<noteq> INT64_MAX \<and> \<not> bookTop_tooSoon s bt \<and>
    processBookTop n FillSimulatorCpp S visit bt s = Inr s'"
  have "bid \<noteq> INT64_MAX"
  proof
    assume "bid = INT64_MAX"
    with a have "INT64_MAX <s ask" by simp
    then show False by (simp add: INT64_MAX_def word_sless_alt) (use sint_lt [of ask] in simp)
  qed
  with a have "\<not> bookTop_rejected FillSimulatorCpp bt"
    by (auto simp add: bookTop_rejected_def bid_def ask_def word_sle_eq word_sless_alt)
  with a processBookTop_accepted [of s bt FillSimulatorCpp n S visit s']
  show "lastBookTop s' = bt" "totalMdEvents s' = totalMdEvents s + 1" by simp_all
qed

theorem processBookTop_filter_witness:
  "processBookTop 0 Part000 idle_strategy [] (top_of 1000000 0 101) (FillSimulator_init 0 0 ())
     = Inr (FillSimulator_init 0 0 ()) \<and>
   lastBookTop ((countMdEvent (updateMarketState (top_of 1000000 9999999999999 10000000000000)
      (FillSimulator_init 0 0 ())))\<lparr>strategy := ()\<rparr>) = top_of 1000000 9999999999999 10000000000000 \<and>
   lastBookTop ((countMdEvent (updateMarketState (top_of 1000000 10000000000001 10000000000002)
      (FillSimulator_init 0 0 ())))\<lparr>strategy := ()\<rparr>) = top_of 1000000 10000000000001 10000000000002"
proof -
  let ?init = "FillSimulator_init 0 0 () :: unit FillSimulator"
  let ?kept = "top_of 1000000 9999999999999 10000000000000"
  let ?kept' = "top_of 1000000 10000000000001 10000000000002"
  have n: "\<not> bookTop_tooSoon ?init bt" for bt
    by (simp add: bookTop_tooSoon_def FillSimulator_init_def)
  have a: "\<not> bookTop_rejected Part000 ?kept" "\<not> bookTop_rejected FillSimulatorCpp ?kept'"
    by (simp_all add: bookTop_rejected_def top_of_def MAX_REASONABLE_PRICE_def INT64_MAX_def
        word_sle_eq word_sless_alt)
  have r: "processBookTop 0 Part000 idle_strategy [] ?kept ?init =
             Inr ((countMdEvent (updateMarketState ?kept ?init))\<lparr>strategy := ()\<rparr>)"
    "processBookTop 0 FillSimulatorCpp idle_strategy [] ?kept' ?init =
             Inr ((countMdEvent (updateMarketState ?kept' ?init))\<lparr>strategy := ()\<rparr>)"
    by (simp_all add: processBookTop_accepted_eq [OF n a(1)] processBookTop_accepted_eq [OF n a(2)]
        idle_strategy_def)
  have b: "bid_nanos (top_level (top_of t x y)) = x" "ask_nanos (top_level (top_of t x y)) = y"
    for t x y by (simp_all add: top_of_def)
  show ?thesis
    using processBookTop_filter [of "top_of 1000000 0 101" 0 idle_strategy "[]" ?init]
      processBookTop_filter [of ?kept 0 idle_strategy "[]" ?init
        "(countMdEvent (updateMarketState ?kept ?init))\<lparr>strategy := ()\<rparr>"]
      processBookTop_filter [of ?kept' 0 idle_strategy "[]" ?init
        "(countMdEvent (updateMarketState ?kept' ?init))\<lparr>strategy := ()\<rparr>"]
    by (simp add: b n r word_sle_eq word_sless_alt INT64_MAX_def)
qed

text \<open>
  Claim C3 as stated fails.  With a fresh simulator, the top with bid \<open>10^13\<close> is
  dropped both with the ask \<open>10^13\<close> (the largest price within the bound) and with
  the ask \<open>10^13 + 1\<close>; and in src/fill\_simulator.cpp the top with bid \<open>10^13 + 1\<close>
  and ask \<open>10^13 + 2\<close> is not dropped.
\<close>

theorem processBookTop_filter_counterexample:
  "processBookTop 0 Part000 idle_strategy [] (top_of 1000000 10000000000000 10000000000000)
     (FillSimulator_init 0 0 ()) = Inr (FillSimulator_init 0 0 ()) \<and>
   processBookTop 0 Part000 idle_strategy [] (top_of 1000000 10000000000000 10000000000001)
     (FillSimulator_init 0 0 ()) = Inr (FillSimulator_init 0 0 ()) \<and>
   processBookTop 0 FillSimulatorCpp idle_strategy [] (top_of 1000000 10000000000001 10000000000002)
     (FillSimulator_init 0 0 ()) \<noteq> Inr (FillSimulator_init 0 0 ())"
  by (simp add: processBookTop_def bookTop_rejected_def top_of_def MAX_REASONABLE_PRICE_def
      bookTop_tooSoon_def FillSimulator_init_def INT64_MAX_def Let_def idle_strategy_def
      processActions_def countMdEvent_def updateMarketState_def word_sle_eq word_sless_alt)

section \<open>Latency stamping of the returned actions\<close>

text \<open>
  Claim C4, amended.  For every action a strategy returns in answer to an event it
  saw at time \<open>t\<close>: \<open>sent_ts\<close> becomes \<open>t\<close> if it was zero and is kept otherwise;
  \<open>md_ts\<close> becomes \<open>t + exchangeLatencyNs\<close>, whatever \<open>sent_ts\<close> is, so it equals
  \<open>sent_ts + exchangeLatencyNs\<close> when the strategy left \<open>sent_ts\<close> zero or set it
  to \<open>t\<close> (as the basic strategy does, which copies the timestamp of the top it was
  handed); the strategy-to-exchange accumulator grows by \<open>exchangeLatencyNs\<close> before
  the stamped action is processed.  For an accepted book top, \<open>t\<close> is the top's
  timestamp plus \<open>strategyMdLatencyNs\<close>.
\<close>

theorem action_stamping:
  "act_sent_ts (delayAction s t a) = (if act_sent_ts a = 0 then t else act_sent_ts a) \<and>
   act_md_ts (delayAction s t a) = t + exchangeLatencyNs s \<and>
   (act_sent_ts a = 0 \<or> act_sent_ts a = t \<longrightarrow>
      act_md_ts (delayAction s t a) = act_sent_ts (delayAction s t a) + exchangeLatencyNs s) \<and>
   act_md_ts (delayAction s (ts delayedBookTop) (BasicStrategy_newBid i symb delayedBookTop)) =
     act_sent_ts (delayAction s (ts delayedBookTop) (BasicStrategy_newBid i symb delayedBookTop)) +
     exchangeLatencyNs s \<and>
   processActions n v S t bt (a # as) s =
     (case processAction n v S (delayAction s t a) bt
             (s\<lparr>totalStrategyToExchangeLatencyNs :=
                  totalStrategyToExchangeLatencyNs s + exchangeLatencyNs s\<rparr>) of
        Inl e \<Rightarrow> Inl e
      | Inr s' \<Rightarrow> processActions n v S t bt as s') \<and>
   (\<not> bookTop_tooSoon s bt \<and> \<not> bookTop_rejected v bt \<longrightarrow>
      processBookTop n v S visit bt s =
        (case processActions n v S (ts bt + strategyMdLatencyNs s) bt
                (fst (onBookTopUpdate S (strategy s) (bt\<lparr>ts := ts bt + strategyMdLatencyNs s\<rparr>)))
                ((countMdEvent (updateMarketState bt s))
                   \<lparr>strategy := snd (onBookTopUpdate S (strategy s)
                                       (bt\<lparr>ts := ts bt + strategyMdLatencyNs s\<rparr>))\<rparr>) of
           Inl e \<Rightarrow> Inl e
         | Inr s3 \<Rightarrow> reevaluateOrders (processFill n v S) bt visit s3))"
proof (intro conjI)
  show "processActions n v S t bt (a # as) s =
     (case processAction n v S (delayAction s t a) bt
             (s\<lparr>totalStrategyToExchangeLatencyNs :=
                  totalStrategyToExchangeLatencyNs s + exchangeLatencyNs s\<rparr>) of
        Inl e \<Rightarrow> Inl e
      | Inr s' \<Rightarrow> processActions n v S t bt as s')"
    by (rule processActions_Cons)
qed (auto simp add: delayAction_def Let_def applyExchangeLatency_def processBookTop_accepted_eq
    BasicStrategy_newBid_def)

theorem action_stamping_witness:
  "act_sent_ts (delayAction (FillSimulator_init 2000 5000 ()) 10002000
      (stamped_add\<lparr>act_sent_ts := 0\<rparr>)) = 10002000 \<and>
   act_md_ts (delayAction (FillSimulator_init 2000 5000 ()) 10002000
      (stamped_add\<lparr>act_sent_ts := 0\<rparr>)) = 10007000 \<and>
   act_md_ts (delayAction (FillSimulator_init 2000 5000 ()) 10002000
      (stamped_add\<lparr>act_sent_ts := 0\<rparr>)) =
   act_sent_ts (delayAction (FillSimulator_init 2000 5000 ()) 10002000
      (stamped_add\<lparr>act_sent_ts := 0\<rparr>)) + 5000"
  using action_stamping [where s = "FillSimulator_init 2000 5000 ()" and t = 10002000
      and a = "stamped_add\<lparr>act_sent_ts := 0\<rparr>"]
  by (simp add: FillSimulator_init_def)

text \<open>
  Claim C4 as stated fails for an action whose \<open>sent_ts\<close> the strategy has set.  In
  scenario S4 the strategy returns an \<open>ADD\<close> with \<open>sent_ts = 5\<close>: the stamping keeps
  \<open>sent_ts = 5\<close> and sets \<open>md_ts = 10007000\<close>, not \<open>5 + 5000\<close>; the add record
  carries that timestamp, the resting order these two values, and the accumulator
  has grown by 5000.
\<close>

theorem action_stamping_counterexample:
  "act_sent_ts (delayAction (FillSimulator_init 2000 5000 ()) 10002000 stamped_add) = 5 \<and>
   act_md_ts (delayAction (FillSimulator_init 2000 5000 ()) 10002000 stamped_add) = 10007000 \<and>
   map_sum id stamping_view
     (processBookTop 0 Part000 (one_shot_strategy stamped_add) [] S4_top
        (FillSimulator_init 2000 5000 ()))
     = Inr ([10007000], Some 10007000, Some 5, 5000)"
  by (simp add: delayAction_def Let_def applyExchangeLatency_def processActions_def stamping_view_def
      processAction_def processBookTop_def applyMdLatency_def updateMarketState_def countMdEvent_def
      FillSimulator_init_def stamped_add_def S4_top_def one_shot_strategy_def
      bookTop_tooSoon_def bookTop_rejected_def MAX_REASONABLE_PRICE_def word_sle_eq word_sless_alt
      processAction_body_def processAction_head_def wouldOrderBeFilled_def processAction_add_def
      writeOrderRecord_def action_record_def OrderInfo_of_action_def OrderRecord_init_def INT64_MAX_def)

section \<open>Position and cash flow of a fill\<close>

lemma signed_take_bit_63_self:
  "0 \<le> (k::int) \<Longrightarrow> k < 9223372036854775808 \<Longrightarrow> signed_take_bit 63 k = k"
proof -
  assume a: "0 \<le> k" "k < 9223372036854775808"
  have "- (2 ^ 63) \<le> k \<and> k < 2 ^ 63"
  proof
    show "- (2 ^ 63) \<le> k" using a(1) by (rule order_trans [rotated]) simp
    show "k < 2 ^ 63" using a(2) by simp
  qed
  then show ?thesis by (simp only: signed_take_bit_int_eq_self_iff)
qed

lemma sint_ucast_u32: "sint (ucast (q :: 32 word) :: 64 word) = uint q"
proof -
  have "uint q < 2 ^ 32" using uint_bounded [of q] by simp
  then have "uint q < 9223372036854775808" by simp
  then have "signed_take_bit 63 (uint q) = uint q"
    by (simp add: signed_take_bit_63_self)
  moreover have "uint q mod 18446744073709551616 = uint q"
    using \<open>uint q < 9223372036854775808\<close> by simp
  ultimately show ?thesis
    by (simp add: sint_uint unsigned_ucast_eq take_bit_eq_mod)
qed

lemma sdiv_nonneg: "0 \<le> (k::int) \<Longrightarrow> 0 < l \<Longrightarrow> k sdiv l = k div l"
  by (cases "k = 0") (simp_all add: signed_divide_int_def)

lemma sint_notional_Part000:
  assumes "0 \<le> sint fp" and "sint fp * uint fq < 9223372036854775808"
  shows "sint (fillNotional Part000 fp fq) = sint fp * uint fq"
proof -
  have "0 \<le> sint fp * uint fq" using assms(1) by simp
  then have "signed_take_bit 63 (sint fp * uint fq) = sint fp * uint fq"
    using assms(2) by (rule signed_take_bit_63_self)
  then show ?thesis
    by (simp add: fillNotional_def sint_word_mult sint_ucast_u32)
qed

lemma sint_notional_Cpp:
  assumes "0 \<le> sint fp" and "sint fp * uint fq < 9223372036854775808"
  shows "sint (fillNotional FillSimulatorCpp fp fq) = sint fp * uint fq div 1000 * 1000"
proof -
  let ?P = "sint fp * uint fq"
  have P: "sint (fp * ucast fq) = ?P"
    using sint_notional_Part000 [OF assms] by (simp add: fillNotional_def)
  have P0: "0 \<le> ?P" using assms by simp
  have q: "i64_div (fp * ucast fq) 1000 = word_of_int (?P div 1000)"
    by (simp add: i64_div_def P sdiv_nonneg [OF P0])
  have r: "0 \<le> ?P div 1000" "?P div 1000 * 1000 \<le> ?P" "0 \<le> ?P div 1000 * 1000" using P0 by simp_all
  have "?P div 1000 < 9223372036854775808" "?P div 1000 * 1000 < 9223372036854775808"
    using r assms(2) by linarith+
  then have s: "signed_take_bit 63 (?P div 1000) = ?P div 1000"
    "signed_take_bit 63 (?P div 1000 * 1000) = ?P div 1000 * 1000"
    using r by (simp_all only: signed_take_bit_63_self)
  show ?thesis
    by (simp add: fillNotional_def q sint_word_mult sint_sbintrunc' s)
qed

lemma processFill_Suc:
  assumes "activeOrders s oid = Some ord"
    and "0 <s fp" and "fp \<noteq> INT64_MAX" and "fq \<noteq> 0"
  shows "processFill (Suc n) v S oid fp fq b tn s =
     (let t = (if tn = 0 then ts (lastBookTop s) + exchangeLatencyNs s else tn);
          r = onOrderFilled S (strategy s) oid fp fq b
      in processActions n v S t ((lastBookTop s)\<lparr>ts := t\<rparr>) (fst r)
           ((processFill_update v oid ord fp fq b t s)\<lparr>strategy := snd r\<rparr>))"
proof -
  have m: "lastBookTop (processFill_update v oid ord fp fq b t s) = lastBookTop s"
    "strategy (processFill_update v oid ord fp fq b t s) = strategy s" for t
    by (simp_all add: processFill_update_def Let_def writeOrderRecord_def)
  from assms(2) have "\<not> fp \<le>s 0" by (simp add: signed.not_le)
  with assms show ?thesis
    by (simp add: processFill_body_def Let_def m processActions_def applyExchangeLatency_def)
qed

lemma processFill_update_pnl:
  "position (processFill_update v oid ord fp fq b t s) =
     (if b then position s + ucast fq else position s - ucast fq) \<and>
   cashFlow (processFill_update v oid ord fp fq b t s) =
     (if b then cashFlow s - fillNotional v fp fq else cashFlow s + fillNotional v fp fq)"
  by (simp add: processFill_update_def Let_def writeOrderRecord_def)

text \<open>
  Claim C5, amended.  A fill of an order in the active set, at a positive price other
  than \<open>INT64_MAX\<close> and for a nonzero quantity, is processed: the state \<open>s1\<close> that
  the strategy's reaction starts from has the position moved by \<open>+fillQty\<close> for a bid
  and \<open>-fillQty\<close> for an ask.  In unnamed/part\_000 the cash flow moves by the product
  \<open>fillPrice * fillQty\<close>, down for a bid and up for an ask.  In src/fill\_simulator.cpp
  it moves by that product divided by 1000 and multiplied by 1000 again, which
  discards the product's remainder modulo 1000.  The products are those of
  \<open>int64_t\<close>; when the exact product is below \<open>2^63\<close> they are the exact integers.
\<close>

theorem processFill_pnl:
  assumes "activeOrders s oid = Some ord"
    and "0 <s fp" and "fp \<noteq> INT64_MAX" and "fq \<noteq> 0"
  shows "\<exists>t s1.
     processFill (Suc n) v S oid fp fq b tn s =
       processActions n v S t ((lastBookTop s)\<lparr>ts := t\<rparr>)
         (fst (onOrderFilled S (strategy s) oid fp fq b))
         (s1\<lparr>strategy := snd (onOrderFilled S (strategy s) oid fp fq b)\<rparr>) \<and>
     position s1 = (if b then position s + ucast fq else position s - ucast fq) \<and>
     cashFlow s1 =
       (case v of
          Part000 \<Rightarrow> (if b then cashFlow s - fp * ucast fq else cashFlow s + fp * ucast fq)
        | FillSimulatorCpp \<Rightarrow>
            (if b then cashFlow s - i64_div (fp * ucast fq) 1000 * 1000
             else cashFlow s + i64_div (fp * ucast fq) 1000 * 1000)) \<and>
     (sint fp * uint fq < 9223372036854775808 \<longrightarrow>
        sint (fp * ucast fq :: i64) = sint fp * uint fq \<and>
        sint (i64_div (fp * ucast fq) 1000 * 1000) = sint fp * uint fq div 1000 * 1000)"
proof -
  have p: "0 \<le> sint fp" using assms(2) by (simp add: word_sless_alt)
  have i: "sint fp * uint fq < 9223372036854775808 \<longrightarrow>
        sint (fp * ucast fq :: i64) = sint fp * uint fq \<and>
        sint (i64_div (fp * ucast fq) 1000 * 1000) = sint fp * uint fq div 1000 * 1000"
    using sint_notional_Part000 [OF p, of fq] sint_notional_Cpp [OF p, of fq]
    by (simp add: fillNotional_def)
  let ?t = "if tn = 0 then ts (lastBookTop s) + exchangeLatencyNs s else tn"
  let ?s1 = "processFill_update v oid ord fp fq b ?t s"
  have 1: "processFill (Suc n) v S oid fp fq b tn s =
       processActions n v S ?t ((lastBookTop s)\<lparr>ts := ?t\<rparr>)
         (fst (onOrderFilled S (strategy s) oid fp fq b))
         (?s1\<lparr>strategy := snd (onOrderFilled S (strategy s) oid fp fq b)\<rparr>)"
    using processFill_Suc [OF assms, of n v S b tn] by (simp add: Let_def)
  have 2: "position ?s1 = (if b then position s + ucast fq else position s - ucast fq)"
    using processFill_update_pnl [of v oid ord fp fq b ?t s] by simp
  have 3: "cashFlow ?s1 =
       (case v of
          Part000 \<Rightarrow> (if b then cashFlow s - fp * ucast fq else cashFlow s + fp * ucast fq)
        | FillSimulatorCpp \<Rightarrow>
            (if b then cashFlow s - i64_div (fp * ucast fq) 1000 * 1000
             else cashFlow s + i64_div (fp * ucast fq) 1000 * 1000))"
    using processFill_update_pnl [of v oid ord fp fq b ?t s]
    by (cases v) (simp_all add: fillNotional_def)
  from 1 2 3 i show ?thesis by blast
qed

theorem processFill_pnl_witness:
  "\<exists>t s1.
     processFill (Suc 0) Part000 idle_strategy 1 1999 1 True 1000000 sim_with_bid =
       processActions 0 Part000 idle_strategy t ((lastBookTop sim_with_bid)\<lparr>ts := t\<rparr>)
         (fst (onOrderFilled idle_strategy (strategy sim_with_bid) 1 1999 1 True))
         (s1\<lparr>strategy := snd (onOrderFilled idle_strategy (strategy sim_with_bid) 1 1999 1 True)\<rparr>) \<and>
     position s1 = 1 \<and> cashFlow s1 = - 1999"
proof -
  have a: "activeOrders sim_with_bid 1 = Some resting_bid" by (simp add: sim_with_bid_def)
  have b: "(0::i64) <s 1999" "(1999::i64) \<noteq> INT64_MAX" "(1::u32) \<noteq> 0"
    by (simp_all add: word_sless_alt INT64_MAX_def)
  have d: "position sim_with_bid = 0" "cashFlow sim_with_bid = 0"
    by (simp_all add: sim_with_bid_def example_sim_def updateMarketState_def FillSimulator_init_def)
  from processFill_pnl [OF a b, of 0 Part000 idle_strategy True 1000000] obtain t s1 where
    1: "processFill (Suc 0) Part000 idle_strategy 1 1999 1 True 1000000 sim_with_bid =
       processActions 0 Part000 idle_strategy t ((lastBookTop sim_with_bid)\<lparr>ts := t\<rparr>)
         (fst (onOrderFilled idle_strategy (strategy sim_with_bid) 1 1999 1 True))
         (s1\<lparr>strategy := snd (onOrderFilled idle_strategy (strategy sim_with_bid) 1 1999 1 True)\<rparr>)"
    and 2: "position s1 = (if True then position sim_with_bid + ucast (1 :: u32)
                           else position sim_with_bid - ucast (1 :: u32))"
    and 3: "cashFlow s1 =
       (case Part000 of
          Part000 \<Rightarrow> (if True then cashFlow sim_with_bid - 1999 * ucast (1 :: u32)
                      else cashFlow sim_with_bid + 1999 * ucast (1 :: u32))
        | FillSimulatorCpp \<Rightarrow>
            (if True then cashFlow sim_with_bid - i64_div (1999 * ucast (1 :: u32)) 1000 * 1000
             else cashFlow sim_with_bid + i64_div (1999 * ucast (1 :: u32)) 1000 * 1000))"
    by blast
  from 2 3 have "position s1 = 1" "cashFlow s1 = - 1999" by (simp_all add: d)
  with 1 show ?thesis by blast
qed

text \<open>
  Claim C5 as stated fails in src/fill\_simulator.cpp.  A resting bid for one share
  is filled at the price 1999: the fill record carries 1999 and the position grows
  by one, but the cash flow falls by 1000, not by 1999.  The same fill in
  unnamed/part\_000 moves the cash flow by 1999.
\<close>

theorem processFill_pnl_counterexample:
  "map_sum id pnl_view
     (processFill 1 FillSimulatorCpp idle_strategy 1 1999 1 True 1000000 sim_with_bid)
   = Inr (1, - 1000, [1999], [1]) \<and>
   map_sum id pnl_view
     (processFill 1 Part000 idle_strategy 1 1999 1 True 1000000 sim_with_bid)
   = Inr (1, - 1999, [1999], [1])"
proof -
  have a: "activeOrders sim_with_bid 1 = Some resting_bid" by (simp add: sim_with_bid_def)
  have b: "(0::i64) <s 1999" "(1999::i64) \<noteq> INT64_MAX" "(1::u32) \<noteq> 0"
    by (simp_all add: word_sless_alt INT64_MAX_def)
  have c: "onOrderFilled idle_strategy st oid fp fq bb = ([], st)" for st oid fp fq bb
    by (simp add: idle_strategy_def)
  have d: "position sim_with_bid = 0" "cashFlow sim_with_bid = 0" "outputFile sim_with_bid = []"
    by (simp_all add: sim_with_bid_def example_sim_def updateMarketState_def FillSimulator_init_def)
  have e: "i64_div 1999 1000 = 1" by (simp add: i64_div_def signed_divide_int_def)
  show ?thesis
    unfolding One_nat_def processFill_Suc [OF a b]
    by (simp add: c Let_def processFill_update_def writeOrderRecord_def d fillNotional_def e
        OrderRecord_init_def pnl_view_def)
qed

section \<open>The invariant of the active set\<close>

lemma fills_wholeD:
  "fills_whole pf \<Longrightarrow> orders_inv s \<Longrightarrow> (\<And>ord. activeOrders s oid = Some ord \<Longrightarrow> fq = quantity ord) \<Longrightarrow>
   pf oid fp fq b t s = Inr s' \<Longrightarrow> orders_inv s'"
  unfolding fills_whole_def by blast

lemma activeOrders_simps [simp]:
  "activeOrders (processAction_head a s) = activeOrders s"
  "activeOrders (processAction_add a s) = (activeOrders s)(act_orderId a \<mapsto> OrderInfo_of_action a)"
  "activeOrders (processAction_add_postOnly a s) = (activeOrders s)(act_orderId a := None)"
  "activeOrders (processAction_cancel a ord s) = (activeOrders s)(act_orderId a := None)"
  by (simp_all add: processAction_add_def processAction_add_postOnly_def
      processAction_cancel_def writeOrderRecord_def processAction_head_def)

lemma activeOrders_replace:
  "\<exists>ord'. activeOrders (processAction_replace a ord s) = (activeOrders s)(act_orderId a \<mapsto> ord') \<and>
      orderId ord' = orderId ord \<and> filledQuantity ord' = filledQuantity ord \<and>
      quantity ord' = act_quantity a \<and> price ord' = act_price a \<and> isBid ord' = isBid ord \<and>
      isPostOnly ord' = isPostOnly ord"
  by (rule exI [of _ "the (activeOrders (processAction_replace a ord s) (act_orderId a))"])
     (simp add: processAction_replace_def Let_def writeOrderRecord_def)

lemma activeOrders_processFill_update:
  "activeOrders (processFill_update v oid ord fp fq b t s) =
     (if quantity ord \<le> filledQuantity ord + fq then (activeOrders s)(oid := None)
      else (activeOrders s)(oid \<mapsto> ord\<lparr>filledQuantity := filledQuantity ord + fq\<rparr>))"
  by (simp add: processFill_update_def Let_def writeOrderRecord_def)

lemma orders_inv_upd [simp]:
  "orders_inv (s\<lparr>strategy := x\<rparr>) = orders_inv s"
  "orders_inv (s\<lparr>totalStrategyToExchangeLatencyNs := y\<rparr>) = orders_inv s"
  "orders_inv (processAction_head a s) = orders_inv s"
  "orders_inv (countMdEvent s) = orders_inv s"
  "orders_inv (updateMarketState bt s) = orders_inv s"
  by (simp_all add: orders_inv_def countMdEvent_def updateMarketState_def)

lemma orders_inv_erase:
  "orders_inv s \<Longrightarrow> activeOrders s' = (activeOrders s)(k := None) \<Longrightarrow> orders_inv s'"
  by (simp add: orders_inv_def)

lemma orders_inv_put:
  "orders_inv s \<Longrightarrow> activeOrders s' = (activeOrders s)(k \<mapsto> ord) \<Longrightarrow> orderId ord = k \<Longrightarrow>
   filledQuantity ord = 0 \<Longrightarrow> orders_inv s'"
  by (simp add: orders_inv_def)

lemma orders_inv_processAction_body:
  assumes f: "fills_whole pf" and i: "orders_inv s" and r: "processAction_body pf a bt s = Inr s'"
  shows "orders_inv s'"
proof (cases "act_type a")
  case ADD
  let ?s1 = "processAction_add a (processAction_head a s)"
  have i1: "orders_inv ?s1"
    by (rule orders_inv_put [where s = "processAction_head a s" and k = "act_orderId a"
          and ord = "OrderInfo_of_action a"])
       (simp_all add: i OrderInfo_of_action_def)
  have q: "\<And>ord. activeOrders ?s1 (act_orderId a) = Some ord \<Longrightarrow> act_quantity a = quantity ord"
    by (auto simp add: OrderInfo_of_action_def)
  from r ADD have "s' = ?s1 \<or> s' = processAction_add_postOnly a ?s1 \<or>
      pf (act_orderId a) (opposingPrice (act_isBid a) bt) (act_quantity a)
          (act_isBid a) (applyExchangeLatency ?s1 (act_md_ts a)) ?s1 = Inr s'"
    by (auto simp add: processAction_body_def Let_def split: if_splits)
  then show ?thesis
  proof (elim disjE)
    assume "s' = ?s1"
    with i1 show ?thesis by simp
  next
    assume 2: "s' = processAction_add_postOnly a ?s1"
    show ?thesis unfolding 2 by (rule orders_inv_erase [OF i1, where k = "act_orderId a"]) simp
  next
    assume 3: "pf (act_orderId a) (opposingPrice (act_isBid a) bt) (act_quantity a)
          (act_isBid a) (applyExchangeLatency ?s1 (act_md_ts a)) ?s1 = Inr s'"
    from fills_wholeD [OF f i1 q 3] show ?thesis .
  qed
next
  case CANCEL
  show ?thesis
  proof (cases "activeOrders s (act_orderId a)")
    case None
    with r CANCEL i show ?thesis by (auto simp add: processAction_body_def Let_def)
  next
    case (Some ord)
    with r CANCEL have "s' = processAction_cancel a ord (processAction_head a s)"
      by (simp add: processAction_body_def Let_def)
    then show ?thesis using orders_inv_erase [where s = "processAction_head a s" and s' = s'] i by simp
  qed
next
  case REPLACE
  show ?thesis
  proof (cases "activeOrders s (act_orderId a)")
    case None
    with r REPLACE i show ?thesis by (auto simp add: processAction_body_def Let_def)
  next
    case (Some ord)
    let ?s0 = "processAction_head a s"
    let ?s1 = "processAction_replace a ord ?s0"
    from activeOrders_replace [of a ord ?s0] obtain ord' where
      o: "activeOrders ?s1 = (activeOrders ?s0)(act_orderId a \<mapsto> ord')"
        "orderId ord' = orderId ord" "filledQuantity ord' = filledQuantity ord"
        "quantity ord' = act_quantity a" by blast
    from i Some have "orderId ord = act_orderId a" "filledQuantity ord = 0"
      by (auto simp add: orders_inv_def)
    with o have i1: "orders_inv ?s1"
      using orders_inv_put [where s = ?s0 and s' = ?s1 and k = "act_orderId a" and ord = ord'] i
      by simp
    have q: "\<And>x. activeOrders ?s1 (act_orderId a) = Some x \<Longrightarrow> act_quantity a = quantity x"
      using o by auto
    from r REPLACE Some have "s' = ?s1 \<or>
        pf (act_orderId a) (opposingPrice (isBid ord) bt) (act_quantity a)
          (isBid ord) (applyExchangeLatency ?s1 (act_md_ts a)) ?s1 = Inr s'"
      by (auto simp add: processAction_body_def Let_def split: if_splits)
    then show ?thesis
    proof (elim disjE)
      assume "s' = ?s1"
      with i1 show ?thesis by simp
    next
      assume 2: "pf (act_orderId a) (opposingPrice (isBid ord) bt) (act_quantity a)
          (isBid ord) (applyExchangeLatency ?s1 (act_md_ts a)) ?s1 = Inr s'"
      from fills_wholeD [OF f i1 q 2] show ?thesis .
    qed
  qed
qed

lemma orders_inv_processActions_body:
  assumes "fills_whole pf"
  shows "orders_inv s \<Longrightarrow> processActions_body pf t bt as s = Inr s' \<Longrightarrow> orders_inv s'"
proof (induction as arbitrary: s)
  case Nil
  then show ?case by simp
next
  case (Cons a as)
  from Cons.prems(2) obtain s1 where
    1: "processAction_body pf (delayAction s t a) bt
          (s\<lparr>totalStrategyToExchangeLatencyNs :=
                  totalStrategyToExchangeLatencyNs s + exchangeLatencyNs s\<rparr>) = Inr s1"
    and 2: "processActions_body pf t bt as s1 = Inr s'"
    by (auto split: sum.splits)
  have "orders_inv s1"
    by (rule orders_inv_processAction_body [OF assms _ 1]) (simp add: Cons.prems(1))
  then show ?case using 2 by (rule Cons.IH)
qed

lemma fills_whole_processFill_body:
  assumes "fills_whole pf"
  shows "fills_whole (processFill_body pf v S)"
  unfolding fills_whole_def
proof (intro allI impI, elim conjE)
  fix oid fp fq b t s s'
  assume i: "orders_inv s" and q: "\<forall>ord. activeOrders s oid = Some ord \<longrightarrow> fq = quantity ord"
    and r: "processFill_body pf v S oid fp fq b t s = Inr s'"
  show "orders_inv s'"
  proof (cases "activeOrders s oid")
    case None
    with r i show ?thesis by (auto simp add: processFill_body_def)
  next
    case (Some ord)
    show ?thesis
    proof (cases "fp \<le>s 0 \<or> fp = INT64_MAX \<or> fq = 0")
      case True
      with r Some i show ?thesis by (auto simp add: processFill_body_def)
    next
      case False
      let ?t = "if t = 0 then applyExchangeLatency s (ts (lastBookTop s)) else t"
      let ?s1 = "processFill_update v oid ord fp fq b ?t s"
      from i Some q have "filledQuantity ord = 0" "fq = quantity ord"
        by (auto simp add: orders_inv_def)
      then have "activeOrders ?s1 = (activeOrders s)(oid := None)"
        by (simp add: activeOrders_processFill_update)
      then have i1: "orders_inv ?s1" by (rule orders_inv_erase [OF i])
      from r Some False obtain bt' acts st' where
        "processActions_body pf ?t bt' acts (?s1\<lparr>strategy := st'\<rparr>) = Inr s'"
        by (simp add: processFill_body_def Let_def)
      with orders_inv_processActions_body [OF assms, of "?s1\<lparr>strategy := st'\<rparr>"] i1
      show ?thesis by simp
    qed
  qed
qed

lemma fills_whole_processFill: "fills_whole (processFill n v S)"
proof (induction n)
  case 0
  show ?case by (simp add: fills_whole_def)
next
  case (Suc n)
  then show ?case by (simp add: fills_whole_processFill_body)
qed

lemma orders_inv_reevaluateOrders:
  assumes "fills_whole pf"
  shows "orders_inv s \<Longrightarrow> reevaluateOrders pf bt visit s = Inr s' \<Longrightarrow> orders_inv s'"
proof (induction visit arbitrary: s)
  case Nil
  then show ?case by simp
next
  case (Cons k visit)
  show ?case
  proof (cases "activeOrders s k")
    case None
    with Cons show ?thesis by simp
  next
    case (Some ord)
    show ?thesis
    proof (cases "wouldOrderBeFilled s (orderId ord) (isBid ord) (price ord)
               (quantity ord - filledQuantity ord)")
      case False
      with Some Cons show ?thesis by simp
    next
      case True
      with Some Cons.prems obtain s1 where
        1: "pf (orderId ord) (opposingPrice (isBid ord) bt)
                       (quantity ord - filledQuantity ord) (isBid ord)
                       (applyExchangeLatency s (md_ts ord)) s = Inr s1"
        and 2: "reevaluateOrders pf bt visit s1 = Inr s'"
        by (auto split: sum.splits)
      from Cons.prems(1) Some have k: "orderId ord = k" "filledQuantity ord = 0"
        by (auto simp add: orders_inv_def)
      have "orders_inv s1"
        by (rule fills_wholeD [OF assms Cons.prems(1) _ 1]) (simp add: k Some)
      then show ?thesis using 2 by (rule Cons.IH)
    qed
  qed
qed

lemma orders_inv_processBookTop:
  assumes "orders_inv s" and r: "processBookTop n v S visit bt s = Inr s'"
  shows "orders_inv s'"
proof (cases "bookTop_tooSoon s bt \<or> bookTop_rejected v bt")
  case True
  with r have "s' = s" by (cases "bookTop_tooSoon s bt") (simp_all add: processBookTop_def)
  with assms show ?thesis by simp
next
  case False
  let ?s2 = "countMdEvent (updateMarketState bt s)"
  from False r obtain t acts st s3 where
    1: "processActions_body (processFill n v S) t bt acts (?s2\<lparr>strategy := st\<rparr>) = Inr s3"
    and 2: "reevaluateOrders (processFill n v S) bt visit s3 = Inr s'"
    by (auto simp add: processBookTop_def Let_def processActions_def split: sum.splits)
  have "orders_inv s3"
    by (rule orders_inv_processActions_body [OF fills_whole_processFill _ 1]) (simp add: assms)
  then show ?thesis
    using 2 by (rule orders_inv_reevaluateOrders [OF fills_whole_processFill])
qed

lemma orders_inv_processBookFill:
  assumes "orders_inv s" and r: "processBookFill n v S fill s = Inr s'"
  shows "orders_inv s'"
proof -
  from r obtain t bt acts st where
    1: "processActions_body (processFill n v S) t bt acts ((countMdEvent s)\<lparr>strategy := st\<rparr>) = Inr s'"
    by (simp add: processBookFill_def Let_def processActions_def)
  show ?thesis
    by (rule orders_inv_processActions_body [OF fills_whole_processFill _ 1]) (simp add: assms)
qed

lemma orders_inv_init: "orders_inv (FillSimulator_init md ex st)"
  by (simp add: orders_inv_def FillSimulator_init_def)

lemma orders_inv_runSimulation:
  "orders_inv s \<Longrightarrow> runSimulation n v S tops fills s = Inr s' \<Longrightarrow> orders_inv s'"
proof (induction n v S tops fills s rule: runSimulation.induct)
  case (1 n v S s)
  then show ?case by simp
next
  case (2 n v S tp tops s)
  then show ?case by (auto split: sum.splits dest: orders_inv_processBookTop)
next
  case (3 n v S bookFill fills s)
  then show ?case by (auto split: sum.splits dest: orders_inv_processBookFill)
next
  case (4 n v S tp tops bookFill fills s)
  then show ?case
    by (auto split: sum.splits if_splits dest: orders_inv_processBookTop orders_inv_processBookFill)
qed

lemma orders_inv_queueStep:
  assumes "orders_inv (snd st)" and r: "queueStep n S visit ev st = Inr st'"
  shows "orders_inv (snd st')"
proof -
  let ?b0 = "(fst st)\<lparr>currentTop := (currentTop (fst st))\<lparr>ts := ev_ts ev, seqno := ev_seq_no ev\<rparr>\<rparr>"
  from r obtain b1 topChanged fill where a: "applyBookEvent ev ?b0 = Inr (b1, topChanged, fill)"
    by (cases "applyBookEvent ev ?b0") (auto simp add: queueStep_def Let_def)
  define s1r where
    "s1r = (case fill of None \<Rightarrow> Inr (snd st) | Some f \<Rightarrow> processBookFill n Part000 S f (snd st))"
  from r a obtain s1 where b: "s1r = Inr s1"
    by (cases s1r) (auto simp add: queueStep_def Let_def s1r_def)
  have i1: "orders_inv s1"
    using b assms(1) by (cases fill) (auto simp add: s1r_def dest: orders_inv_processBookFill)
  from r a b have
    "snd st' = s1 \<or> processBookTop n Part000 S visit (updateTopLevels b1) s1 = Inr (snd st')"
    by (auto simp add: queueStep_def Let_def s1r_def split: if_splits sum.splits)
  with i1 show ?thesis by (auto dest: orders_inv_processBookTop)
qed

lemma orders_inv_runQueueSimulation:
  "orders_inv (snd st) \<Longrightarrow> runQueueSimulation n S events st = Inr st' \<Longrightarrow> orders_inv (snd st')"
proof (induction events arbitrary: st)
  case Nil
  then show ?case by simp
next
  case (Cons e events)
  then show ?case by (auto split: sum.splits dest: orders_inv_queueStep)
qed


text \<open>
  Scenario S4 with the bid of \<open>stamped_add\<close>: the top is accepted, the bid does not
  cross and rests.
\<close>

lemma eval_S4:
  "processBookTop 0 Part000 (one_shot_strategy stamped_add) [1] S4_top (FillSimulator_init 2000 5000 ())
    = Inr (processAction_add (delayAction (FillSimulator_init 2000 5000 ()) 10002000 stamped_add)
            ((countMdEvent (updateMarketState S4_top (FillSimulator_init 2000 5000 ())))
              \<lparr>totalStrategyToExchangeLatencyNs := 5000\<rparr>))"
proof -
  let ?init = "FillSimulator_init 2000 5000 () :: unit FillSimulator"
  let ?s2 = "countMdEvent (updateMarketState S4_top ?init)"
  let ?a = "delayAction ?init 10002000 stamped_add"
  have n: "\<not> bookTop_tooSoon ?init S4_top"
    by (simp add: bookTop_tooSoon_def FillSimulator_init_def)
  have a: "\<not> bookTop_rejected Part000 S4_top"
    by (simp add: bookTop_rejected_def S4_top_def MAX_REASONABLE_PRICE_def word_sle_eq word_sless_alt)
  have f: "strategyMdLatencyNs ?init = 2000" "exchangeLatencyNs ?init = 5000" "strategy ?init = ()"
    "ts S4_top = 10000000" "totalStrategyToExchangeLatencyNs ?s2 = 0" "exchangeLatencyNs ?s2 = 5000"
    by (simp_all add: FillSimulator_init_def S4_top_def countMdEvent_def updateMarketState_def)
  have cb: "onBookTopUpdate (one_shot_strategy stamped_add) x bt = ([stamped_add], x)" for x bt
    by (simp add: one_shot_strategy_def)
  have d: "delayAction ?s2 10002000 stamped_add = ?a"
    by (simp add: delayAction_def applyExchangeLatency_def f Let_def)
  have ta: "act_type ?a = ADD" "act_isBid ?a" "act_price ?a = 100" "act_quantity ?a = 1"
    "act_orderId ?a = 1"
    by (simp_all add: delayAction_def Let_def stamped_add_def)
  let ?s3 = "?s2\<lparr>totalStrategyToExchangeLatencyNs := 5000\<rparr>"
  have w: "\<not> wouldOrderBeFilled ?s3 oid True 100 1" for oid
    by (simp add: wouldOrderBeFilled_def Let_def countMdEvent_def updateMarketState_def S4_top_def
        INT64_MAX_def word_sle_eq)
  have p: "processAction 0 Part000 (one_shot_strategy stamped_add) ?a S4_top ?s3
             = Inr (processAction_add ?a ?s3)"
    by (simp add: processAction_def processAction_body_def Let_def ta w processAction_head_def)
  have v: "activeOrders (processAction_add ?a ?s3) 1 = Some (OrderInfo_of_action ?a)"
    by (simp add: delayAction_def Let_def stamped_add_def)
  have w2: "\<not> wouldOrderBeFilled (processAction_add ?a ?s3) oid True 100 1" for oid
    using w by simp
  have o: "isBid (OrderInfo_of_action ?a)" "price (OrderInfo_of_action ?a) = 100"
    "quantity (OrderInfo_of_action ?a) - filledQuantity (OrderInfo_of_action ?a) = 1"
    by (simp_all add: OrderInfo_of_action_def ta)
  have u: "x\<lparr>strategy := ()\<rparr> = x" for x :: "unit FillSimulator"
    by (cases x) simp
  show ?thesis
    unfolding processBookTop_accepted_eq [OF n a]
    by (simp add: cb f u processActions_Cons d p ta w2 o del: wouldOrderBeFilled_processAction_add)
qed

section \<open>Queue mode\<close>

lemma book_find_book_put [simp]: "book_find p (book_put p lv bs) = Some lv"
  by (induction bs) (auto simp add: book_find_def)

lemma book_side_set_book_side [simp]: "book_side (set_book_side c bs b) c = bs"
  by (simp add: book_side_def set_book_side_def)

lemma order_map_set_book_side [simp]: "order_map (set_book_side c bs b) = order_map b"
  by (simp add: set_book_side_def)

lemma map_of_queue_assign:
  "map_of q node = Some ord \<Longrightarrow> map_of (queue_assign node ord' q) node = Some ord'"
  by (induction q) (auto simp add: queue_assign_def)

lemmas queue_eval =
  queueStep_def applyBookEvent_def insert_order_def Let_def book_side_def set_book_side_def
  book_find_def updateTopLevels_def level_price_def level_qty_def OrderBook_init_def
  processBookTop_def bookTop_tooSoon_def bookTop_rejected_def MAX_REASONABLE_PRICE_def
  INT64_MAX_def MIN_PROCESSING_INTERVAL_def word_sle_eq word_sless_alt
  FillSimulator_init_def updateMarketState_def countMdEvent_def applyMdLatency_def
  book_top_level_zero_def

lemma currentTop_set_book_side [simp]: "currentTop (set_book_side c bs b) = currentTop b"
  by (simp add: set_book_side_def)

lemma insert_order_currentTop: "currentTop (fst (insert_order p oid q c t b)) = currentTop b"
  by (simp add: insert_order_def Let_def)

lemma delete_order_currentTop: "delete_order oid b = Inr (b', c) \<Longrightarrow> currentTop b' = currentTop b"
  by (auto simp add: delete_order_def Let_def split: option.splits)

lemma replace_order_currentTop:
  "replace_order p orig new q t b = Inr (b', c) \<Longrightarrow> currentTop b' = currentTop b"
  using insert_order_currentTop [of p new q "0 <s p" t b]
  by (auto simp add: replace_order_def split: option.splits sum.splits)

lemma amend_order_currentTop:
  "amend_order oid q t b = Inr (b', c) \<Longrightarrow> currentTop b' = currentTop b"
  by (auto simp add: amend_order_def Let_def split: option.splits)

lemma reduce_order_currentTop:
  "reduce_order oid q t b = Inr (b', c) \<Longrightarrow> currentTop b' = currentTop b"
  by (auto simp add: reduce_order_def Let_def split: option.splits if_splits)

lemma execute_order_currentTop:
  "execute_order oid q e px t seq b = Inr (b', c, f) \<Longrightarrow> currentTop b' = currentTop b"
  by (auto simp add: execute_order_def Let_def split: option.splits if_splits)

lemma applyBookEvent_currentTop:
  assumes "applyBookEvent ev b = Inr (b', c, f)"
  shows "currentTop b' = currentTop b"
proof (cases "ev_body ev")
  case (Add_order p oid q is_bid')
  with assms insert_order_currentTop [of p oid q is_bid' "ev_ts ev" b] show ?thesis
    by (auto simp add: applyBookEvent_def split: prod.splits)
next
  case (Delete_order oid)
  with assms show ?thesis
    by (auto simp add: applyBookEvent_def split: sum.splits dest: delete_order_currentTop)
next
  case (Replace_order p orig new q)
  with assms show ?thesis
    by (auto simp add: applyBookEvent_def split: sum.splits dest: replace_order_currentTop)
next
  case (Amend_order oid q)
  with assms show ?thesis
    by (auto simp add: applyBookEvent_def split: sum.splits dest: amend_order_currentTop)
next
  case (Reduce_order oid q)
  with assms show ?thesis
    by (auto simp add: applyBookEvent_def split: sum.splits dest: reduce_order_currentTop)
next
  case (Execute_order oid q e)
  with assms show ?thesis
    by (auto simp add: applyBookEvent_def dest: execute_order_currentTop)
next
  case (Execute_order_at_price oid q e px)
  with assms show ?thesis
    by (auto simp add: applyBookEvent_def dest: execute_order_currentTop)
next
  case Clear_book
  with assms show ?thesis by (auto simp add: applyBookEvent_def)
next
  case Other_event
  with assms show ?thesis by (auto simp add: applyBookEvent_def)
qed

lemma ts_updateTopLevels [simp]: "ts (updateTopLevels b) = ts (currentTop b)"
  by (simp add: updateTopLevels_def Let_def)

lemma book_with_bid_facts:
  "order_map book_with_bid 1 = Some \<lparr>ref_price = 99, ref_is_bid = True, order_it = 0\<rparr>"
  "book_find 99 (book_side book_with_bid True) =
     Some (5, [(0, \<lparr>ord_id = 1, qty = 5, ord_timestamp = 1000000\<rparr>)])"
  by (simp_all add: book_with_bid_def insert_order_def Let_def OrderBook_init_def book_side_def
      set_book_side_def book_find_def)

lemma replace_order_found:
  "order_map b orig = Some r \<Longrightarrow> replace_order p orig new q t b = Inl InvalidatedIterator"
  by (cases "delete_order orig b") (auto simp add: replace_order_def delete_order_def Let_def split: option.splits)

lemma replace_order_not_found:
  "order_map b orig = None \<Longrightarrow>
   replace_order p orig new q t b = Inr (insert_order p new q (0 <s p) t b)"
  by (simp add: replace_order_def)


text \<open>
  Claim C9.  A \<open>reduce_order\<close> event for an order that is in the order map, whose
  level and queue entry exist: if the difference \<open>qty - cxled_qty\<close>, taken modulo
  \<open>2^32\<close>, is not zero, the order stays in the order map and in its level's queue
  with that difference as its quantity, and the level's total is lowered by
  \<open>cxled_qty\<close> modulo \<open>2^32\<close> as well.  When \<open>cxled_qty\<close> exceeds the quantity the
  difference is not zero and equals \<open>qty + 2^32 - cxled_qty\<close>.
\<close>

theorem reduce_order_wraps:
  assumes "order_map b oid = Some r"
    and "book_find (ref_price r) (book_side b (ref_is_bid r)) = Some (tot, queue)"
    and "map_of queue (order_it r) = Some ord"
  shows "(qty ord - cxled_qty \<noteq> 0 \<longrightarrow>
          (\<exists>b'. reduce_order oid cxled_qty t b = Inr (b', False) \<and>
             order_map b' oid = Some r \<and>
             book_find (ref_price r) (book_side b' (ref_is_bid r)) =
               Some (tot - cxled_qty,
                     queue_assign (order_it r)
                       (ord\<lparr>qty := qty ord - cxled_qty, ord_timestamp := t\<rparr>) queue) \<and>
             map_of (queue_assign (order_it r)
                       (ord\<lparr>qty := qty ord - cxled_qty, ord_timestamp := t\<rparr>) queue) (order_it r) =
               Some (ord\<lparr>qty := qty ord - cxled_qty, ord_timestamp := t\<rparr>))) \<and>
         (qty ord < cxled_qty \<longrightarrow>
            qty ord - cxled_qty \<noteq> 0 \<and>
            unat (qty ord - cxled_qty) = unat (qty ord) + 2 ^ 32 - unat cxled_qty)"
proof (intro conjI impI)
  assume nz: "qty ord - cxled_qty \<noteq> 0"
  let ?ord = "ord\<lparr>qty := qty ord - cxled_qty, ord_timestamp := t\<rparr>"
  let ?b = "set_book_side (ref_is_bid r)
              (book_put (ref_price r) (tot - cxled_qty, queue_assign (order_it r) ?ord queue)
                 (book_side b (ref_is_bid r))) b"
  have "reduce_order oid cxled_qty t b = Inr (?b, False)"
    using assms nz by (simp add: reduce_order_def Let_def)
  moreover have "order_map ?b oid = Some r" using assms by simp
  moreover have "book_find (ref_price r) (book_side ?b (ref_is_bid r)) =
      Some (tot - cxled_qty, queue_assign (order_it r) ?ord queue)" by simp
  moreover have "map_of (queue_assign (order_it r) ?ord queue) (order_it r) = Some ?ord"
    using assms(3) by (rule map_of_queue_assign)
  ultimately show "\<exists>b'. reduce_order oid cxled_qty t b = Inr (b', False) \<and>
             order_map b' oid = Some r \<and>
             book_find (ref_price r) (book_side b' (ref_is_bid r)) =
               Some (tot - cxled_qty, queue_assign (order_it r) ?ord queue) \<and>
             map_of (queue_assign (order_it r) ?ord queue) (order_it r) = Some ?ord"
    by blast
next
  assume lt: "qty ord < cxled_qty"
  then show "qty ord - cxled_qty \<noteq> 0" by auto
  from lt have "unat (qty ord) < unat cxled_qty" by (simp add: word_less_nat_alt)
  moreover have "unat cxled_qty < 2 ^ 32" using unsigned_less [of cxled_qty] by simp
  ultimately show "unat (qty ord - cxled_qty) = unat (qty ord) + 2 ^ 32 - unat cxled_qty"
    by (simp add: unat_sub_if')
qed

theorem reduce_order_wraps_witness:
  "\<exists>b'. reduce_order 1 7 1000001 book_with_bid = Inr (b', False) \<and>
      order_map b' 1 = Some \<lparr>ref_price = 99, ref_is_bid = True, order_it = 0\<rparr> \<and>
      book_find 99 (book_side b' True) =
        Some (4294967294, [(0, \<lparr>ord_id = 1, qty = 4294967294, ord_timestamp = 1000001\<rparr>)]) \<and>
      unat (5 - 7 :: u32) = 4294967294"
proof -
  have m: "map_of [(0::nat, \<lparr>ord_id = 1, qty = 5, ord_timestamp = 1000000\<rparr>)] 0 =
      Some \<lparr>ord_id = 1, qty = 5 :: u32, ord_timestamp = 1000000 :: u64\<rparr>" by simp
  have e: "(4294967294 :: u32) = - 2" by simp
  show ?thesis
    using reduce_order_wraps [of book_with_bid 1 "\<lparr>ref_price = 99, ref_is_bid = True, order_it = 0\<rparr>"
        5 "[(0, \<lparr>ord_id = 1, qty = 5, ord_timestamp = 1000000\<rparr>)]"
        "\<lparr>ord_id = 1, qty = 5, ord_timestamp = 1000000\<rparr>" 7 1000001]
    by (simp add: book_with_bid_facts queue_assign_def e)
qed

text \<open>
  Claim C8 (the code departs from it).  After \<open>add_order(id = 1, price = 99, qty = 5,
  is_bid = true)\<close>, the event \<open>replace_order(orig_id = 1, new_id = 4, price = 98, qty =
  5)\<close> finds the original order, erases its map entry and then computes the side of
  the new order from the erased iterator: the run ends in \<open>InvalidatedIterator\<close>,
  where the claim requires the new order on the bid side.
\<close>

theorem replace_order_reads_erased_entry:
  "runQueueSimulation 0 idle_strategy [(ev_add_bid_99, []), (ev_replace_bid, [])]
     (OrderBook_init, FillSimulator_init 0 0 ()) = Inl InvalidatedIterator"
  by (simp add: queue_eval ev_add_bid_99_def ev_replace_bid_def idle_strategy_def
      replace_order_def delete_order_def split: sum.splits)

text \<open>
  Claim C6, amended.  In queue mode a book event that changed the top hands the
  synthesized \<open>BookTop\<close>, stamped with the event's timestamp, to the same
  \<open>processBookTop\<close> as the tops/fills path.  It is therefore dropped, with the
  simulator's state unchanged and the strategy not called, when a top was accepted
  before and the event is less than 100000 ns after it, or when it fails the validity
  filter; otherwise it is accepted, stored and delivered to the strategy.
\<close>

theorem queue_top_coalesced:
  assumes "applyBookEvent ev
             (b\<lparr>currentTop := (currentTop b)\<lparr>ts := ev_ts ev, seqno := ev_seq_no ev\<rparr>\<rparr>) =
           Inr (b1, True, None)"
  shows "ts (updateTopLevels b1) = ev_ts ev \<and>
     queueStep n S visit ev (b, s) =
       (case processBookTop n Part000 S visit (updateTopLevels b1) s of
          Inl e \<Rightarrow> Inl e
        | Inr s2 \<Rightarrow> Inr (b1\<lparr>currentTop := updateTopLevels b1\<rparr>, s2)) \<and>
     ((0 < lastProcessedTime s \<and> ev_ts ev - lastProcessedTime s < 100000) \<or>
      bookTop_rejected Part000 (updateTopLevels b1) \<longrightarrow>
        queueStep n S visit ev (b, s) = Inr (b1\<lparr>currentTop := updateTopLevels b1\<rparr>, s)) \<and>
     (\<not> (0 < lastProcessedTime s \<and> ev_ts ev - lastProcessedTime s < 100000) \<and>
      \<not> bookTop_rejected Part000 (updateTopLevels b1) \<and>
      queueStep n S visit ev (b, s) = Inr (b2, s2) \<longrightarrow>
        lastBookTop s2 = updateTopLevels b1 \<and> totalMdEvents s2 = totalMdEvents s + 1)"
proof -
  have t: "ts (updateTopLevels b1) = ev_ts ev"
    using applyBookEvent_currentTop [OF assms] by simp
  have q: "queueStep n S visit ev (b, s) =
       (case processBookTop n Part000 S visit (updateTopLevels b1) s of
          Inl e \<Rightarrow> Inl e
        | Inr s2 \<Rightarrow> Inr (b1\<lparr>currentTop := updateTopLevels b1\<rparr>, s2))"
    using assms by (simp add: queueStep_def Let_def)
  have ts: "bookTop_tooSoon s (updateTopLevels b1) =
      (0 < lastProcessedTime s \<and> ev_ts ev - lastProcessedTime s < 100000)"
    by (simp add: bookTop_tooSoon_def t [simplified] MIN_PROCESSING_INTERVAL_def
        applyBookEvent_currentTop [OF assms])
  have d: "(0 < lastProcessedTime s \<and> ev_ts ev - lastProcessedTime s < 100000) \<or>
      bookTop_rejected Part000 (updateTopLevels b1) \<longrightarrow>
        queueStep n S visit ev (b, s) = Inr (b1\<lparr>currentTop := updateTopLevels b1\<rparr>, s)"
    unfolding q ts [symmetric] by (auto simp add: processBookTop_dropped)
  have a: "\<not> (0 < lastProcessedTime s \<and> ev_ts ev - lastProcessedTime s < 100000) \<and>
      \<not> bookTop_rejected Part000 (updateTopLevels b1) \<and>
      queueStep n S visit ev (b, s) = Inr (b2, s2) \<longrightarrow>
        lastBookTop s2 = updateTopLevels b1 \<and> totalMdEvents s2 = totalMdEvents s + 1"
    unfolding q ts [symmetric]
    using processBookTop_accepted [of s "updateTopLevels b1" Part000 n S visit s2]
    by (auto split: sum.splits)
  from t q d a show ?thesis by blast
qed

theorem queue_top_coalesced_witness:
  "map_sum id snd (queueStep 0 idle_strategy [] ev_add_bid_99 (OrderBook_init, example_sim))
     = Inr example_sim \<and>
   (\<exists>b2 s2. queueStep 0 idle_strategy [] ev_add_ask_101
               (book_with_bid, FillSimulator_init 0 0 ()) = Inr (b2, s2) \<and>
            totalMdEvents s2 = 1 \<and> bid_nanos (top_level (lastBookTop s2)) = 99 \<and>
            ask_nanos (top_level (lastBookTop s2)) = 101)"
proof -
  let ?b0 = "OrderBook_init\<lparr>currentTop := (currentTop OrderBook_init)
               \<lparr>ts := ev_ts ev_add_bid_99, seqno := ev_seq_no ev_add_bid_99\<rparr>\<rparr>"
  let ?b1 = "fst (insert_order 99 1 5 True 1000000 ?b0)"
  have 1: "applyBookEvent ev_add_bid_99 ?b0 = Inr (?b1, True, None)"
    by (simp add: applyBookEvent_def ev_add_bid_99_def insert_order_def Let_def OrderBook_init_def
        book_side_def set_book_side_def book_find_def word_sle_eq)
  have l: "lastProcessedTime example_sim = 1000000" "ev_ts ev_add_bid_99 = 1000000"
    by (simp_all add: example_sim_def updateMarketState_def example_top_def ev_add_bid_99_def)
  let ?c0 = "book_with_bid\<lparr>currentTop := (currentTop book_with_bid)
               \<lparr>ts := ev_ts ev_add_ask_101, seqno := ev_seq_no ev_add_ask_101\<rparr>\<rparr>"
  let ?c1 = "fst (insert_order 101 2 5 False 1000001 ?c0)"
  let ?init = "FillSimulator_init 0 0 () :: unit FillSimulator"
  have 2: "applyBookEvent ev_add_ask_101 ?c0 = Inr (?c1, True, None)"
    by (simp add: applyBookEvent_def ev_add_ask_101_def insert_order_def Let_def OrderBook_init_def
        book_side_def set_book_side_def book_find_def word_sle_eq book_with_bid_def)
  have t: "bid_nanos (top_level (updateTopLevels ?c1)) = 99"
    "ask_nanos (top_level (updateTopLevels ?c1)) = 101"
    by (simp_all add: queue_eval book_with_bid_def ev_add_ask_101_def)
  have nr: "\<not> bookTop_rejected Part000 (updateTopLevels ?c1)"
    by (simp add: bookTop_rejected_def t MAX_REASONABLE_PRICE_def word_sle_eq word_sless_alt)
  have l0: "lastProcessedTime ?init = 0" "totalMdEvents ?init = 0"
    by (simp_all add: FillSimulator_init_def)
  have ns: "\<not> bookTop_tooSoon ?init bt" for bt by (simp add: bookTop_tooSoon_def l0)
  have "\<exists>b2 s2. queueStep 0 idle_strategy [] ev_add_ask_101 (book_with_bid, ?init) = Inr (b2, s2)"
    by (simp add: queueStep_def Let_def 2 processBookTop_accepted_eq [OF ns nr] idle_strategy_def)
  then obtain b2 s2 where
    3: "queueStep 0 idle_strategy [] ev_add_ask_101 (book_with_bid, ?init) = Inr (b2, s2)"
    by blast
  from queue_top_coalesced [OF 2, of 0 idle_strategy "[]" ?init b2 s2] 3 nr
  have "totalMdEvents s2 = 1" "lastBookTop s2 = updateTopLevels ?c1" by (simp_all add: l0)
  with 3 t have B: "\<exists>b2 s2. queueStep 0 idle_strategy [] ev_add_ask_101
               (book_with_bid, FillSimulator_init 0 0 ()) = Inr (b2, s2) \<and>
            totalMdEvents s2 = 1 \<and> bid_nanos (top_level (lastBookTop s2)) = 99 \<and>
            ask_nanos (top_level (lastBookTop s2)) = 101" by auto
  have h: "(0 < lastProcessedTime example_sim \<and>
            ev_ts ev_add_bid_99 - lastProcessedTime example_sim < 100000) \<or>
           bookTop_rejected Part000 (updateTopLevels ?b1)"
    by (simp add: l)
  have "queueStep 0 idle_strategy [] ev_add_bid_99 (OrderBook_init, example_sim) =
          Inr (?b1\<lparr>currentTop := updateTopLevels ?b1\<rparr>, example_sim)"
    using queue_top_coalesced [OF 1, of 0 idle_strategy "[]" example_sim] h by blast
  then have A: "map_sum id snd
      (queueStep 0 idle_strategy [] ev_add_bid_99 (OrderBook_init, example_sim)) = Inr example_sim"
    by simp
  from A B show ?thesis by blast
qed

text \<open>
  Claim C6 as stated fails.  A bid at 99, then an ask at 101 at \<open>ts = 1000001\<close>
  (the first valid top, delivered), then a better bid at 100 at \<open>ts = 1000050\<close>:
  the reconstructed top is 100/101 and valid, but the strategy has been called once
  only and the simulator still stores the bid 99.  With the third event at
  \<open>ts = 1100001\<close> instead, 100000 ns after the second, the top is delivered.
\<close>

theorem queue_top_coalesced_counterexample:
  "map_sum id queue_view
     (runQueueSimulation 0 counting_strategy
        [(ev_add_bid_99, []), (ev_add_ask_101, []), (ev_add_bid_100 1000050, [])]
        (OrderBook_init, FillSimulator_init 0 0 0))
   = Inr (1, 99, 100, 101, 1000050) \<and>
   map_sum id queue_view
     (runQueueSimulation 0 counting_strategy
        [(ev_add_bid_99, []), (ev_add_ask_101, []), (ev_add_bid_100 1100001, [])]
        (OrderBook_init, FillSimulator_init 0 0 0))
   = Inr (2, 100, 100, 101, 1100001)"
  by (simp add: queue_eval ev_add_bid_99_def ev_add_ask_101_def ev_add_bid_100_def
      counting_strategy_def queue_view_def)

section \<open>An ADD for an id that is already active\<close>

text \<open>
  Claim C10.  An \<open>ADD\<close> action whose \<open>order_id\<close> is already in the active set: the
  state \<open>s1\<close> after the insertion holds, under that id, the order built from the
  action (filled quantity 0, the action's price and quantity) in place of the old
  one; no other order changed; \<open>totalOrdersPlaced\<close> grew by one; and the output
  grew by exactly one record, of event type 1, so no cancel record was written for
  the old order.  If the new order does not cross, \<open>processAction\<close> returns \<open>s1\<close>;
  if it crosses and is post-only, it is cancelled from \<open>s1\<close>; if it crosses and is
  not post-only, \<open>processFill\<close> runs on \<open>s1\<close> for the action's whole quantity.
\<close>

theorem add_overwrites_existing:
  assumes "act_type a = ADD" and "activeOrders s (act_orderId a) = Some old"
  shows
  "(let s1 = processAction_add a (processAction_head a s);
        crosses = wouldOrderBeFilled s (act_orderId a) (act_isBid a) (act_price a) (act_quantity a)
    in activeOrders s1 (act_orderId a) = Some (OrderInfo_of_action a) \<and>
       filledQuantity (OrderInfo_of_action a) = 0 \<and>
       price (OrderInfo_of_action a) = act_price a \<and>
       quantity (OrderInfo_of_action a) = act_quantity a \<and>
       (\<forall>k. k \<noteq> act_orderId a \<longrightarrow> activeOrders s1 k = activeOrders s k) \<and>
       totalOrdersPlaced s1 = totalOrdersPlaced s + 1 \<and>
       outputFile s1 = outputFile s @ [action_record 1 a] \<and>
       event_type (action_record 1 a) = 1 \<and>
       (\<not> crosses \<longrightarrow> processAction n v S a bookTop s = Inr s1) \<and>
       (crosses \<and> act_isPostOnly a \<longrightarrow>
          processAction n v S a bookTop s = Inr (processAction_add_postOnly a s1)) \<and>
       (crosses \<and> \<not> act_isPostOnly a \<longrightarrow>
          processAction n v S a bookTop s =
            processFill n v S (act_orderId a) (opposingPrice (act_isBid a) bookTop)
              (act_quantity a) (act_isBid a) (act_md_ts a + exchangeLatencyNs s) s1))"
proof -
  have e: "exchangeLatencyNs (processAction_add a (processAction_head a s)) = exchangeLatencyNs s"
    "totalOrdersPlaced (processAction_add a (processAction_head a s)) = totalOrdersPlaced s + 1"
    "outputFile (processAction_add a (processAction_head a s)) = outputFile s @ [action_record 1 a]"
    by (simp_all add: processAction_add_def processAction_head_def writeOrderRecord_def)
  show ?thesis
    using assms(1)
    by (simp add: Let_def e processAction_def processAction_body_def applyExchangeLatency_def
        OrderInfo_of_action_def action_record_def)
qed

theorem add_overwrites_existing_witness:
  "processAction 0 Part000 idle_strategy stamped_add example_top sim_with_bid =
     Inr (processAction_add stamped_add (processAction_head stamped_add sim_with_bid)) \<and>
   activeOrders (processAction_add stamped_add (processAction_head stamped_add sim_with_bid)) 1 =
     Some (OrderInfo_of_action stamped_add) \<and>
   activeOrders sim_with_bid 1 = Some resting_bid \<and>
   price resting_bid = 1999 \<and> price (OrderInfo_of_action stamped_add) = 100 \<and>
   totalOrdersPlaced (processAction_add stamped_add (processAction_head stamped_add sim_with_bid)) = 1 \<and>
   map event_type
     (outputFile (processAction_add stamped_add (processAction_head stamped_add sim_with_bid))) = [1]"
proof -
  have a: "act_type stamped_add = ADD" "act_orderId stamped_add = 1" "act_price stamped_add = 100"
    "act_isBid stamped_add" "act_quantity stamped_add = 1"
    by (simp_all add: stamped_add_def)
  have o: "activeOrders sim_with_bid (act_orderId stamped_add) = Some resting_bid"
    by (simp add: sim_with_bid_def a)
  have w: "\<not> wouldOrderBeFilled sim_with_bid 1 True 100 1"
    by (simp add: wouldOrderBeFilled_def sim_with_bid_def INT64_MAX_def word_sle_eq)
  have f: "totalOrdersPlaced sim_with_bid = 0" "outputFile sim_with_bid = []"
    by (simp_all add: sim_with_bid_def example_sim_def updateMarketState_def FillSimulator_init_def)
  show ?thesis
    using add_overwrites_existing [OF a(1) o, of 0 Part000 idle_strategy example_top] w
    by (simp add: Let_def a f o [unfolded a] resting_bid_def OrderInfo_of_action_def action_record_def)
qed

end
